theory Spec2Isabelle
  imports Main "HOL-Library.Char_ord" "HOL-Library.List_Lexorder" "HOL-Library.Product_Lexorder"
begin

section \<open>Text primitives of the host language\<close>

text \<open>
  Strings are compared by code point, as Python compares \<open>str\<close>: the order on \<open>char\<close> is
  the one on character codes and lists are ordered lexicographically. Text is taken to
  be ASCII (one \<open>char\<close> per code point).
\<close>

definition isspace :: "char \<Rightarrow> bool" where
  \<comment> \<open>the characters \<open>str.strip()\<close> removes: TAB..CR, FS..US and the blank\<close>
  "isspace c = (c \<in> set [CHR 0x09, CHR 0x0A, CHR 0x0B, CHR 0x0C, CHR 0x0D,
                          CHR 0x1C, CHR 0x1D, CHR 0x1E, CHR 0x1F, CHR 0x20])"

definition strip :: "string \<Rightarrow> string" where
  "strip s = rev (dropWhile isspace (rev (dropWhile isspace s)))"

definition upper_char :: "char \<Rightarrow> char" where
  "upper_char c =
     (case map_of (zip ''abcdefghijklmnopqrstuvwxyz'' ''ABCDEFGHIJKLMNOPQRSTUVWXYZ'') c of
        Some u \<Rightarrow> u
      | None \<Rightarrow> c)"

definition upper :: "string \<Rightarrow> string" where
  "upper s = map upper_char s"

fun join :: "string \<Rightarrow> string list \<Rightarrow> string" where
  "join sep [] = []"
| "join sep [x] = x"
| "join sep (x # y # ys) = x @ sep @ join sep (y # ys)"

text \<open>\<open>unique()\<close> of pandas: the distinct values in order of first appearance.\<close>

fun unique :: "'a list \<Rightarrow> 'a list" where
  "unique [] = []"
| "unique (x # xs) = x # unique (filter (\<lambda>y. y \<noteq> x) xs)"

text \<open>\<open>list.index\<close>: the position of the first occurrence (called on members only).\<close>

fun index_of :: "'a \<Rightarrow> 'a list \<Rightarrow> nat" where
  "index_of x [] = 0"
| "index_of x (y # ys) = (if x = y then 0 else Suc (index_of x ys))"

section \<open>Times of day\<close>

text \<open>
  A parsed time stamp is the number of seconds since the midnight of its date (the date
  itself never reaches the output: only \<open>strftime('%H:%M:%S')\<close> is applied to it).
\<close>

definition digit_char :: "nat \<Rightarrow> char" where
  "digit_char n = ''0123456789'' ! (n mod 10)"

definition two_digits :: "nat \<Rightarrow> string" where
  "two_digits n = [digit_char (n div 10), digit_char n]"

definition strftime_HMS :: "nat \<Rightarrow> string" where
  "strftime_HMS t =
     two_digits ((t div 3600) mod 24) @ '':'' @ two_digits ((t div 60) mod 60) @ '':'' @ two_digits (t mod 60)"

text \<open>
  \<open>generate_time_slots\<close>: the loop runs from 08:05:00 while \<open>current <= end_time\<close> (17:35:00),
  adding 30 minutes per turn.
\<close>

function slots_loop :: "nat \<Rightarrow> nat \<Rightarrow> string list" where
  "slots_loop current end_time =
     (if current \<le> end_time then strftime_HMS current # slots_loop (current + 30 * 60) end_time else [])"
  by pat_completeness auto
termination
  by (relation "measure (\<lambda>(c, e). Suc e - c)") auto

declare slots_loop.simps [simp del]

definition generate_time_slots :: "string list" where
  "generate_time_slots = slots_loop (8 * 3600 + 5 * 60) (17 * 3600 + 35 * 60)"

text \<open>
  The strict parse of line 60, \<open>to_datetime(..., format='%H:%M:%S')\<close>. The directives are
  matched as the regular expressions \<open>2[0-3]|[0-1]\d|\d\<close>, \<open>[0-5]\d|\d\<close> and
  \<open>6[0-1]|[0-5]\d|\d\<close>, separated by colons, and the whole text must be consumed.
  The empty text and the spellings of a missing value give the null stamp instead of
  an error. \<open>None\<close> is the \<open>ValueError\<close> of a text that does not match. A seconds field of
  60 or 61, which the expression admits, is taken as that many seconds after the minute.
\<close>

datatype stamp = NaT | Stamp nat

definition digit_val :: "char \<Rightarrow> nat option" where
  "digit_val c = (if CHR ''0'' \<le> c \<and> c \<le> CHR ''9'' then Some (of_char c - 48) else None)"

text \<open>One directive: two digits when they form a value below the bound, else one digit.\<close>

fun directive :: "nat \<Rightarrow> string \<Rightarrow> (nat \<times> string) option" where
  "directive bound [] = None"
| "directive bound [c] = (case digit_val c of None \<Rightarrow> None | Some a \<Rightarrow> Some (a, []))"
| "directive bound (c # d # rest) =
     (case digit_val c of
        None \<Rightarrow> None
      | Some a \<Rightarrow>
          (case digit_val d of
             None \<Rightarrow> Some (a, d # rest)
           | Some b \<Rightarrow> if 10 * a + b < bound then Some (10 * a + b, rest) else Some (a, d # rest)))"

fun colon :: "string \<Rightarrow> string option" where
  "colon [] = None"
| "colon (c # rest) = (if c = CHR '':'' then Some rest else None)"

definition nat_strings :: "string list" where
  "nat_strings = [''NaT'', ''nat'', ''NAT'', ''nan'', ''NaN'', ''NAN'']"

definition strptime_HMS :: "string \<Rightarrow> stamp option" where
  "strptime_HMS s =
     (if s = [] \<or> s \<in> set nat_strings then Some NaT
      else case directive 24 s of
        None \<Rightarrow> None
      | Some (h, s1) \<Rightarrow>
          (case colon s1 of
             None \<Rightarrow> None
           | Some s2 \<Rightarrow>
               (case directive 60 s2 of
                  None \<Rightarrow> None
                | Some (m, s3) \<Rightarrow>
                    (case colon s3 of
                       None \<Rightarrow> None
                     | Some s4 \<Rightarrow>
                         (case directive 62 s4 of
                            None \<Rightarrow> None
                          | Some (sec, s5) \<Rightarrow>
                              if s5 = [] then Some (Stamp (h * 3600 + m * 60 + sec)) else None)))))"

section \<open>Tables\<close>

text \<open>
  A cell of a table is a missing value (\<open>NaN\<close>) or a value, kept as the text \<open>str()\<close>
  gives for it. The input of \<open>load_and_clean_data\<close> is the frame \<open>pd.concat\<close> returns at
  line 38: the column labels and the rows, each row holding one cell per column.
  A row shorter than the column list reads as missing in the columns it lacks.
\<close>

datatype cell = NaN | Str string

record frame =
  columns :: "string list"
  rows :: "cell list list"

fun astype_str :: "cell \<Rightarrow> string" where
  "astype_str NaN = ''nan''"
| "astype_str (Str s) = s"

definition cell_at :: "string list \<Rightarrow> cell list \<Rightarrow> string \<Rightarrow> cell" where
  "cell_at cols row c = (case map_of (zip cols row) c of Some v \<Rightarrow> v | None \<Rightarrow> NaN)"

definition drop_column :: "string \<Rightarrow> frame \<Rightarrow> frame" where
  "drop_column c df =
     \<lparr>columns = filter (\<lambda>x. x \<noteq> c) (columns df),
      rows = map (\<lambda>r. map snd (filter (\<lambda>xv. fst xv \<noteq> c) (zip (columns df) r))) (rows df)\<rparr>"

definition rename_column :: "string \<Rightarrow> string \<Rightarrow> frame \<Rightarrow> frame" where
  "rename_column old new df = df\<lparr>columns := map (\<lambda>x. if x = old then new else x) (columns df)\<rparr>"

text \<open>Lines 41 to 45: the duplicated day column replaces the first one, then the labels
  are stripped and put in upper case.\<close>

definition map_columns :: "frame \<Rightarrow> frame" where
  "map_columns df =
     (let df1 = (if ''DAY'' \<in> set (columns df) \<and> ''DAY.1'' \<in> set (columns df)
                 then rename_column ''DAY.1'' ''DAY'' (drop_column ''DAY'' df)
                 else df)
      in df1\<lparr>columns := map (\<lambda>c. upper (strip c)) (columns df1)\<rparr>)"

section \<open>Errors\<close>

datatype error =
    MissingStartTime "string list"
      \<comment> \<open>the \<open>ValueError\<close> of line 52, carrying \<open>list(df.columns)\<close>\<close>
  | AttributeError
      \<comment> \<open>a label held by two columns selects a table, which has no \<open>.str\<close>\<close>
  | KeyError
      \<comment> \<open>\<open>groupby\<close> at line 120 on a frame without the column DAY\<close>
  | GrouperError
      \<comment> \<open>\<open>groupby\<close> at line 120 on a frame with two columns DAY\<close>
  | TypeError
      \<comment> \<open>the join of line 120 over a missing value\<close>
  | SheetTitleError
      \<comment> \<open>\<open>to_excel\<close> at line 182 with a sheet name that is no sheet title\<close>
  | IndexError
      \<comment> \<open>closing the writer at the end of line 130's block with no sheet written\<close>

section \<open>The normalizer: \<open>load_and_clean_data\<close>\<close>

definition required_cols :: "string list" where
  "required_cols = [''DAY'', ''START TIME'', ''SUBJECT'', ''TEACHER'', ''ROOM'', ''GROUP'', ''INTAKE'']"

definition text_cols :: "string list" where
  "text_cols = [''ROOM'', ''GROUP'', ''TEACHER'', ''SUBJECT'', ''INTAKE'']"

text \<open>
  Lines 59 to 62. The strict parse is tried on the stripped text of every cell of the
  column; when one of them raises, the whole column is parsed again by the permissive
  \<open>to_datetime(..., errors='coerce')\<close>. That parser belongs to the library and is a
  parameter here: \<open>coerce col i\<close> is its result for position \<open>i\<close> of column \<open>col\<close>.
  A missing cell is the null stamp in any case.
\<close>

definition standardize_time :: "(cell list \<Rightarrow> nat \<Rightarrow> stamp) \<Rightarrow> cell list \<Rightarrow> stamp list" where
  "standardize_time coerce col =
     (case those (map (\<lambda>c. strptime_HMS (strip (astype_str c))) col) of
        Some stamps \<Rightarrow> stamps
      | None \<Rightarrow> map (\<lambda>ic. case snd ic of NaN \<Rightarrow> NaT | Str s \<Rightarrow> coerce col (fst ic)) (enumerate 0 col))"

text \<open>Line 64, \<open>dropna\<close>: the rows with a null start time go; the others keep their
  index label.\<close>

fun dropna :: "(nat \<times> cell list \<times> stamp) list \<Rightarrow> (nat \<times> cell list \<times> nat) list" where
  "dropna [] = []"
| "dropna ((i, r, NaT) # xs) = dropna xs"
| "dropna ((i, r, Stamp t) # xs) = (i, r, t) # dropna xs"

record class_record =
  idx :: nat
  day :: cell
  start_time :: string
  subject :: cell
  teacher :: cell
  room :: cell
  group_col :: cell
  intake :: cell
  intake_group :: cell

text \<open>
  Lines 68 and 69. A column that is present is coerced to text, cell by cell, and
  stripped. For an absent column the default \<open>pd.Series([""] * len(df))\<close> carries the
  labels \<open>0 .. len(df) - 1\<close>, and the assignment aligns it with the labels of the frame:
  a row whose label is not below \<open>len(df)\<close> receives a missing value.
\<close>

definition clean_text :: "string list \<Rightarrow> nat \<Rightarrow> nat \<Rightarrow> cell list \<Rightarrow> string \<Rightarrow> cell" where
  "clean_text cols n i row c =
     (if c \<in> set cols then Str (strip (astype_str (cell_at cols row c)))
      else if i < n then Str [] else NaN)"

text \<open>Line 72: the concatenation of two text columns is missing where either is.\<close>

fun add_cells :: "cell \<Rightarrow> cell \<Rightarrow> cell" where
  "add_cells (Str a) (Str b) = Str (a @ b)"
| "add_cells _ _ = NaN"

definition make_record :: "string list \<Rightarrow> nat \<Rightarrow> nat \<times> cell list \<times> nat \<Rightarrow> class_record" where
  "make_record cols n x =
     (case x of (i, row, t) \<Rightarrow>
        \<lparr>idx = i,
         day = cell_at cols row ''DAY'',
         start_time = strftime_HMS t,
         subject = clean_text cols n i row ''SUBJECT'',
         teacher = clean_text cols n i row ''TEACHER'',
         room = clean_text cols n i row ''ROOM'',
         group_col = clean_text cols n i row ''GROUP'',
         intake = clean_text cols n i row ''INTAKE'',
         intake_group =
           add_cells (add_cells (clean_text cols n i row ''INTAKE'') (Str '' ''))
             (clean_text cols n i row ''GROUP'')\<rparr>)"

text \<open>
  The frame \<open>load_and_clean_data\<close> returns: its rows, and how many columns DAY it has
  (DAY is the one column of the result that may be absent, or doubled). The selection
  \<open>df[existing_cols]\<close> of line 56 is the choice of the fields of \<open>class_record\<close>: no other
  column is read afterwards. A label among START TIME and the text columns that two
  columns hold makes lines 60 or 69 select a table instead of a column, and the call
  of \<open>.str\<close> on it raises.
\<close>

record clean_frame =
  day_columns :: nat
  records :: "class_record list"

definition load_and_clean_data :: "(cell list \<Rightarrow> nat \<Rightarrow> stamp) \<Rightarrow> frame \<Rightarrow> error + clean_frame" where
  "load_and_clean_data coerce df0 =
     (let df = map_columns df0; cols = columns df in
      if ''START TIME'' \<notin> set cols then Inl (MissingStartTime cols)
      else if list_ex (\<lambda>c. 1 < count_list cols c) (''START TIME'' # text_cols) then Inl AttributeError
      else
        let times = standardize_time coerce (map (\<lambda>r. cell_at cols r ''START TIME'') (rows df));
            kept = dropna (zip [0 ..< length (rows df)] (zip (rows df) times))
        in Inr \<lparr>day_columns = count_list cols ''DAY'',
                records = map (make_record cols (length kept)) kept\<rparr>)"

section \<open>The grid builder: \<open>generate_schedule_excel\<close>\<close>

datatype view_type = Room | Teacher

text \<open>An occupancy entry: a row of \<open>df_grouped\<close>, the key
  (DAY, START TIME, SUBJECT, TEACHER, ROOM) and the joined INTAKE_GROUP.\<close>

type_synonym group_key = "string \<times> string \<times> string \<times> string \<times> string"
type_synonym entry = "group_key \<times> string"

fun e_day :: "entry \<Rightarrow> string" where "e_day ((d, st, su, te, ro), ig) = d"
fun e_start :: "entry \<Rightarrow> string" where "e_start ((d, st, su, te, ro), ig) = st"
fun e_subject :: "entry \<Rightarrow> string" where "e_subject ((d, st, su, te, ro), ig) = su"
fun e_teacher :: "entry \<Rightarrow> string" where "e_teacher ((d, st, su, te, ro), ig) = te"
fun e_room :: "entry \<Rightarrow> string" where "e_room ((d, st, su, te, ro), ig) = ro"
fun e_intake_group :: "entry \<Rightarrow> string" where "e_intake_group ((d, st, su, te, ro), ig) = ig"

text \<open>\<open>groupby\<close> drops the rows with a missing value in a key column.\<close>

definition key_of :: "class_record \<Rightarrow> group_key option" where
  "key_of r =
     (case (day r, subject r, teacher r, room r) of
        (Str d, Str su, Str te, Str ro) \<Rightarrow> Some (d, start_time r, su, te, ro)
      | _ \<Rightarrow> None)"

definition keyed_rows :: "class_record list \<Rightarrow> (group_key \<times> cell) list" where
  "keyed_rows rs = List.map_filter (\<lambda>r. map_option (\<lambda>k. (k, intake_group r)) (key_of r)) rs"

text \<open>The groups come in ascending order of their keys, each with the INTAKE_GROUP
  cells of its rows in row order.\<close>

definition groupby :: "class_record list \<Rightarrow> (group_key \<times> cell list) list" where
  "groupby rs =
     map (\<lambda>k. (k, map snd (filter (\<lambda>kv. fst kv = k) (keyed_rows rs))))
       (sort (unique (map fst (keyed_rows rs))))"

fun strings_of :: "cell list \<Rightarrow> string list option" where
  "strings_of [] = Some []"
| "strings_of (NaN # xs) = None"
| "strings_of (Str s # xs) = map_option ((#) s) (strings_of xs)"

text \<open>The function applied to each group: the unique values joined by newlines.\<close>

definition join_unique :: "cell list \<Rightarrow> error + string" where
  "join_unique xs =
     (case strings_of (unique xs) of None \<Rightarrow> Inl TypeError | Some ss \<Rightarrow> Inr (join [CHR 0x0A] ss))"

fun apply_join :: "(group_key \<times> cell list) list \<Rightarrow> error + entry list" where
  "apply_join [] = Inr []"
| "apply_join ((k, vs) # gs) =
     (case join_unique vs of
        Inl e \<Rightarrow> Inl e
      | Inr s \<Rightarrow> (case apply_join gs of Inl e \<Rightarrow> Inl e | Inr es \<Rightarrow> Inr ((k, s) # es)))"

text \<open>Line 120: \<open>df_grouped\<close>.\<close>

definition df_grouped :: "class_record list \<Rightarrow> error + entry list" where
  "df_grouped rs = apply_join (groupby rs)"

definition day_rank :: "(string \<times> nat) list" where
  "day_rank =
     [(''MON'', 0), (''MONDAY'', 0), (''TUE'', 1), (''TUESDAY'', 1),
      (''WED'', 2), (''WEDNESDAY'', 2), (''THU'', 3), (''THURSDAY'', 3),
      (''FRI'', 4), (''FRIDAY'', 4), (''SAT'', 5), (''SATURDAY'', 5),
      (''SUN'', 6), (''SUNDAY'', 6)]"

text \<open>The sort key of line 128.\<close>

definition rank_of :: "string \<Rightarrow> nat" where
  "rank_of d = (case map_of day_rank (upper (strip d)) of Some r \<Rightarrow> r | None \<Rightarrow> 99)"

definition primary_col :: "view_type \<Rightarrow> string" where
  "primary_col v = (case v of Room \<Rightarrow> ''ROOM'' | Teacher \<Rightarrow> ''TEACHER'')"

definition primary_val :: "view_type \<Rightarrow> entry \<Rightarrow> string" where
  "primary_val v e = (case v of Room \<Rightarrow> e_room e | Teacher \<Rightarrow> e_teacher e)"

text \<open>The cell text: the display columns of the view, joined by newlines.\<close>

definition cell_text :: "view_type \<Rightarrow> entry \<Rightarrow> string" where
  "cell_text v e =
     join [CHR 0x0A]
       (case v of
          Room \<Rightarrow> [e_teacher e, e_subject e, e_intake_group e]
        | Teacher \<Rightarrow> [e_room e, e_subject e, e_intake_group e])"

text \<open>
  The matrix under construction is read and written through row and column labels
  (\<open>matrix_df.at[r, c]\<close>): a map from the two labels to the cell, \<open>None\<close> being the empty
  cell. The guards of lines 155 and 163 keep every access inside the labels of the matrix.
\<close>

type_synonym matrix = "string \<times> string \<Rightarrow> string option"

definition separator :: string where
  "separator = [CHR 0x0A] @ ''---'' @ [CHR 0x0A]"

definition update_cell :: "matrix \<Rightarrow> string \<Rightarrow> string \<Rightarrow> string \<Rightarrow> matrix" where
  "update_cell m r c text =
     (case m (r, c) of
        None \<Rightarrow> m((r, c) := Some text)
      | Some old \<Rightarrow> m((r, c) := Some (old @ separator @ text)))"

text \<open>The body of the loop of line 153, for one row of \<open>day_data\<close>.\<close>

definition fill_row :: "view_type \<Rightarrow> string list \<Rightarrow> string list \<Rightarrow> matrix \<Rightarrow> entry \<Rightarrow> matrix" where
  "fill_row v index matrix_cols m e =
     (if primary_val v e \<notin> set index then m
      else if e_start e \<in> set matrix_cols then
        (let m1 = update_cell m (primary_val v e) (e_start e) (cell_text v e);
             start_idx = index_of (e_start e) matrix_cols
         in if start_idx + 1 < length matrix_cols
            then update_cell m1 (primary_val v e) (matrix_cols ! (start_idx + 1)) (cell_text v e)
            else m1)
      else m)"

text \<open>The frame \<open>final_df\<close> of line 180: the header and the rows of the matrix of a day.\<close>

record day_matrix =
  dm_columns :: "string list"
  dm_rows :: "string option list list"

definition unique_primary :: "view_type \<Rightarrow> entry list \<Rightarrow> string list" where
  "unique_primary v day_data =
     sort (filter (\<lambda>x. x \<noteq> ''nan'' \<and> x \<noteq> []) (unique (map (primary_val v) day_data)))"

definition init_matrix :: "view_type \<Rightarrow> matrix" where
  "init_matrix v = (\<lambda>rc. if snd rc = primary_col v then Some (fst rc) else None)"

text \<open>Lines 132 to 180 for one day of the loop: nothing (\<open>continue\<close>), or the day with its
  frame \<open>final_df\<close>.\<close>

definition build_day :: "view_type \<Rightarrow> entry list \<Rightarrow> string \<Rightarrow> (string \<times> day_matrix) list" where
  "build_day v grouped d =
     (let day_data = filter (\<lambda>e. e_day e = d) grouped in
      if day_data = [] then []
      else
        let index = unique_primary v day_data in
        if index = [] then []
        else
          let matrix_cols = primary_col v # generate_time_slots;
              m = foldl (fill_row v index matrix_cols) (init_matrix v) day_data
          in [(d, \<lparr>dm_columns = matrix_cols,
                    dm_rows = map (\<lambda>r. map (\<lambda>c. m (r, c)) matrix_cols) index\<rparr>)])"

definition unique_days :: "entry list \<Rightarrow> string list" where
  "unique_days grouped = sort_key rank_of (unique (map e_day grouped))"

text \<open>
  The day matrices of a run: the frames \<open>final_df\<close> that the loop of line 131 builds, each
  with its day label, in the order of the loop. They are what the loop hands to
  \<open>to_excel\<close> at line 182, one after the other, as long as no write raises.
\<close>

definition final_dfs :: "clean_frame \<Rightarrow> view_type \<Rightarrow> error + (string \<times> day_matrix) list" where
  "final_dfs df v =
     (if day_columns df = 0 then Inl KeyError
      else if 1 < day_columns df then Inl GrouperError
      else case df_grouped (records df) of
        Inl e \<Rightarrow> Inl e
      | Inr grouped \<Rightarrow> Inr (concat (map (build_day v grouped) (unique_days grouped))))"

text \<open>Line 181: the sheet name of a day, the text before its first blank, in upper case,
  cut to 30 characters.\<close>

definition sheet_name_clean :: "string \<Rightarrow> string" where
  "sheet_name_clean d = take 30 (upper (takeWhile (\<lambda>c. c \<noteq> CHR '' '') d))"

text \<open>
  The workbook under construction: its sheets in the order of their creation, each with
  its title and the cells written to it. \<open>to_excel\<close> (line 182) refuses a name that is no
  sheet title, the empty text or a text with one of the characters that a title may not
  hold. A name that a sheet of the workbook already has selects that sheet, and the
  frame is written over it cell by cell: the cells outside the new frame stay. Otherwise
  a new sheet is added. The banner and the styles of \<open>format_worksheet\<close> are left out.
\<close>

type_synonym workbook = "(string \<times> day_matrix) list"

definition invalid_title :: "string \<Rightarrow> bool" where
  "invalid_title t =
     (t = [] \<or> list_ex (\<lambda>c. c \<in> set [CHR 0x5C, CHR ''*'', CHR ''?'', CHR '':'', CHR ''/'', CHR ''['', CHR '']'']) t)"

definition overlay_row :: "'a list \<Rightarrow> 'a list \<Rightarrow> 'a list" where
  "overlay_row new old = new @ drop (length new) old"

fun overlay_rows :: "'a list list \<Rightarrow> 'a list list \<Rightarrow> 'a list list" where
  "overlay_rows [] olds = olds"
| "overlay_rows news [] = news"
| "overlay_rows (n # ns) (old # olds) = overlay_row n old # overlay_rows ns olds"

definition overlay :: "day_matrix \<Rightarrow> day_matrix \<Rightarrow> day_matrix" where
  "overlay new old =
     \<lparr>dm_columns = overlay_row (dm_columns new) (dm_columns old),
      dm_rows = overlay_rows (dm_rows new) (dm_rows old)\<rparr>"

definition to_excel :: "workbook \<Rightarrow> string \<Rightarrow> day_matrix \<Rightarrow> error + workbook" where
  "to_excel wb sheet_name final_df =
     (if invalid_title sheet_name then Inl SheetTitleError
      else if sheet_name \<in> fst ` set wb
      then Inr (map (\<lambda>s. if fst s = sheet_name then (fst s, overlay final_df (snd s)) else s) wb)
      else Inr (wb @ [(sheet_name, final_df)]))"

text \<open>The loop of line 131 over the days, with the workbook as its state: a day without
  a frame is skipped, a write that raises ends the run.\<close>

fun write_days :: "view_type \<Rightarrow> entry list \<Rightarrow> workbook \<Rightarrow> string list \<Rightarrow> error + workbook" where
  "write_days v grouped wb [] = Inr wb"
| "write_days v grouped wb (label # labels) =
     (case build_day v grouped label of
        [] \<Rightarrow> write_days v grouped wb labels
      | (d, final_df) # _ \<Rightarrow>
          (case to_excel wb (sheet_name_clean d) final_df of
             Inl e \<Rightarrow> Inl e
           | Inr wb' \<Rightarrow> write_days v grouped wb' labels))"

text \<open>The whole function: the workbook it returns, or the error it raises. Closing the
  writer fails when the loop has written no sheet.\<close>

definition generate_schedule_excel :: "clean_frame \<Rightarrow> view_type \<Rightarrow> error + workbook" where
  "generate_schedule_excel df v =
     (if day_columns df = 0 then Inl KeyError
      else if 1 < day_columns df then Inl GrouperError
      else case df_grouped (records df) of
        Inl e \<Rightarrow> Inl e
      | Inr grouped \<Rightarrow>
          (case write_days v grouped [] (unique_days grouped) of
             Inl e \<Rightarrow> Inl e
           | Inr wb \<Rightarrow> if wb = [] then Inl IndexError else Inr wb))"

text \<open>The normalize-then-build pipeline: the day matrices of the normalized tables.\<close>

definition pipeline :: "(cell list \<Rightarrow> nat \<Rightarrow> stamp) \<Rightarrow> frame \<Rightarrow> view_type \<Rightarrow> error + (string \<times> day_matrix) list" where
  "pipeline coerce df0 v =
     (case load_and_clean_data coerce df0 of
        Inl e \<Rightarrow> Inl e
      | Inr df \<Rightarrow> final_dfs df v)"

text \<open>Lines 217 and 218 of \<open>handle_request\<close>: the two functions in sequence.\<close>

definition process :: "(cell list \<Rightarrow> nat \<Rightarrow> stamp) \<Rightarrow> frame \<Rightarrow> view_type \<Rightarrow> error + workbook" where
  "process coerce df0 v =
     (case load_and_clean_data coerce df0 of
        Inl e \<Rightarrow> Inl e
      | Inr df \<Rightarrow> generate_schedule_excel df v)"

section \<open>Auxiliary notions for the proofs\<close>

text \<open>What \<open>update_cell\<close> does to the content of the cell it addresses.\<close>

definition app :: "string option \<Rightarrow> string \<Rightarrow> string option" where
  "app old text = (case old of None \<Rightarrow> Some text | Some s \<Rightarrow> Some (s @ separator @ text))"

text \<open>The cells one row of \<open>day_data\<close> is written to, in the order of the writes.\<close>

definition writes :: "view_type \<Rightarrow> string list \<Rightarrow> string list \<Rightarrow> entry \<Rightarrow> (string \<times> string) list" where
  "writes v index cols e =
     (if primary_val v e \<notin> set index then []
      else if e_start e \<in> set cols then
        (primary_val v e, e_start e) #
        (if index_of (e_start e) cols + 1 < length cols
         then [(primary_val v e, cols ! (index_of (e_start e) cols + 1))] else [])
      else [])"

text \<open>Writing a sequence of day matrices, each under the sheet name of its day.\<close>

fun write_sheets :: "workbook \<Rightarrow> (string \<times> day_matrix) list \<Rightarrow> error + workbook" where
  "write_sheets wb [] = Inr wb"
| "write_sheets wb ((d, final_df) # rest) =
     (case to_excel wb (sheet_name_clean d) final_df of
        Inl e \<Rightarrow> Inl e
      | Inr wb' \<Rightarrow> write_sheets wb' rest)"

text \<open>The texts written to the cell \<open>rc\<close> while the rows \<open>es\<close> are placed, in the order
  of the writes.\<close>

definition contributions :: "view_type \<Rightarrow> string list \<Rightarrow> string list \<Rightarrow> string \<times> string \<Rightarrow> entry list \<Rightarrow> string list" where
  "contributions v index cols rc es =
     concat (map (\<lambda>e. map (\<lambda>_. cell_text v e) (filter (\<lambda>w. w = rc) (writes v index cols e))) es)"

section \<open>Inputs of the examples\<close>

text \<open>The two rows of the end-to-end example: one class, two groups.\<close>

definition example_two_groups :: frame where
  "example_two_groups =
     \<lparr>columns = [''DAY'', ''START TIME'', ''SUBJECT'', ''TEACHER'', ''ROOM'', ''GROUP'', ''INTAKE''],
      rows = [[Str ''Mon'', Str ''08:05:00'', Str ''Math'', Str ''A'', Str ''101'', Str ''G1'', Str ''JAN''],
              [Str ''Mon'', Str ''08:05:00'', Str ''Math'', Str ''A'', Str ''101'', Str ''G2'', Str ''JAN'']]\<rparr>"

text \<open>An occupancy entry of room 101 that starts at the first slot, and one that starts
  at the last slot.\<close>

definition example_entry :: entry where
  "example_entry = ((''Mon'', ''08:05:00'', ''Math'', ''A'', ''101''), ''JAN G1'')"

definition example_last_entry :: entry where
  "example_last_entry = ((''Mon'', ''17:35:00'', ''Art'', ''B'', ''101''), ''JAN G2'')"

text \<open>A second entry of room 101 at the first slot, colliding with \<open>example_entry\<close>.\<close>

definition example_collision_entry :: entry where
  "example_collision_entry = ((''Mon'', ''08:05:00'', ''Physics'', ''B'', ''101''), ''FEB G3'')"

text \<open>The start times of the rows of a frame (after the column mapping), as the time
  standardization parses them, and the rows that survive the \<open>dropna\<close> of line 64.\<close>

definition parsed_times :: "(cell list \<Rightarrow> nat \<Rightarrow> stamp) \<Rightarrow> frame \<Rightarrow> stamp list" where
  "parsed_times coerce df =
     standardize_time coerce (map (\<lambda>r. cell_at (columns df) r ''START TIME'') (rows df))"

definition kept_rows :: "(cell list \<Rightarrow> nat \<Rightarrow> stamp) \<Rightarrow> frame \<Rightarrow> (nat \<times> cell list \<times> nat) list" where
  "kept_rows coerce df = dropna (zip [0 ..< length (rows df)] (zip (rows df) (parsed_times coerce df)))"

text \<open>A permissive parser that recognises nothing, for the examples in which the strict
  parse succeeds and the permissive one is never consulted.\<close>

definition coerce_none :: "cell list \<Rightarrow> nat \<Rightarrow> stamp" where
  "coerce_none col i = NaT"

text \<open>One row whose start time is a valid time of day off the slot axis.\<close>

definition example_off_axis :: frame where
  "example_off_axis =
     \<lparr>columns = [''DAY'', ''START TIME'', ''SUBJECT'', ''TEACHER'', ''ROOM'', ''GROUP'', ''INTAKE''],
      rows = [[Str ''Mon'', Str ''09:00:00'', Str ''Math'', Str ''A'', Str ''101'', Str ''G1'', Str ''JAN'']]\<rparr>"

text \<open>A table with a start-time column only, and a table without one.\<close>

definition example_only_start_time :: frame where
  "example_only_start_time = \<lparr>columns = [''START TIME''], rows = [[Str ''08:05:00'']]\<rparr>"

definition example_no_start_time :: frame where
  "example_no_start_time = \<lparr>columns = [''SUBJECT'', ''TEACHER''], rows = [[Str ''Math'', Str ''A'']]\<rparr>"

text \<open>The order of the day matrices: by rank, and by code point among labels of one rank.\<close>

definition day_before :: "string \<Rightarrow> string \<Rightarrow> bool" where
  "day_before a b = (rank_of a < rank_of b \<or> (rank_of a = rank_of b \<and> a < b))"

text \<open>The day labels of the day matrices of a result.\<close>

definition emitted_days :: "error + (string \<times> day_matrix) list \<Rightarrow> error + string list" where
  "emitted_days res = map_sum id (map fst) res"

text \<open>Three rows on the days FRI, Monday and wed, in this order; two rows on the days
  Zed and Abc, no weekday names; two rows on the days Mon and MON.\<close>

definition example_three_days :: frame where
  "example_three_days =
     \<lparr>columns = [''DAY'', ''START TIME'', ''ROOM''],
      rows = [[Str ''FRI'', Str ''08:05:00'', Str ''R1''],
              [Str ''Monday'', Str ''08:05:00'', Str ''R1''],
              [Str ''wed'', Str ''08:05:00'', Str ''R1'']]\<rparr>"

definition example_unknown_days :: frame where
  "example_unknown_days =
     \<lparr>columns = [''DAY'', ''START TIME'', ''ROOM''],
      rows = [[Str ''Zed'', Str ''08:05:00'', Str ''R1''],
              [Str ''Abc'', Str ''08:05:00'', Str ''R1'']]\<rparr>"

definition example_case_days :: frame where
  "example_case_days =
     \<lparr>columns = [''DAY'', ''START TIME'', ''ROOM''],
      rows = [[Str ''Mon'', Str ''08:05:00'', Str ''R1''],
              [Str ''MON'', Str ''08:05:00'', Str ''R2'']]\<rparr>"

text \<open>The normalized form of \<open>example_three_days\<close> and the day matrices built from it in
  the room view.\<close>

definition example_three_days_clean :: clean_frame where
  "example_three_days_clean =
     \<lparr>day_columns = 1,
      records =
        [\<lparr>idx = 0, day = Str ''FRI'', start_time = ''08:05:00'', subject = Str [],
          teacher = Str [], room = Str ''R1'', group_col = Str [],
          intake = Str [], intake_group = Str '' ''\<rparr>,
         \<lparr>idx = 1, day = Str ''Monday'', start_time = ''08:05:00'', subject = Str [],
          teacher = Str [], room = Str ''R1'', group_col = Str [],
          intake = Str [], intake_group = Str '' ''\<rparr>,
         \<lparr>idx = 2, day = Str ''wed'', start_time = ''08:05:00'', subject = Str [],
          teacher = Str [], room = Str ''R1'', group_col = Str [],
          intake = Str [], intake_group = Str '' ''\<rparr>]\<rparr>"

definition example_sheet_R1 :: day_matrix where
  "example_sheet_R1 =
     \<lparr>dm_columns = ''ROOM'' # generate_time_slots,
      dm_rows = [Some ''R1'' # Some [CHR 0x0A, CHR 0x0A, CHR '' ''] # Some [CHR 0x0A, CHR 0x0A, CHR '' '']
                 # replicate 18 None]\<rparr>"

definition example_three_days_sheets :: "(string \<times> day_matrix) list" where
  "example_three_days_sheets =
     [(''Monday'', example_sheet_R1), (''wed'', example_sheet_R1), (''FRI'', example_sheet_R1)]"

text \<open>
  The row set of a day as the description of the matrix states it: the distinct values of
  the primary column among the rows of the day that enter the grouping, without the empty
  text and without the text nan.
\<close>

definition primary_of_record :: "view_type \<Rightarrow> class_record \<Rightarrow> cell" where
  "primary_of_record v r = (case v of Room \<Rightarrow> room r | Teacher \<Rightarrow> teacher r)"

definition day_primary_values :: "view_type \<Rightarrow> class_record list \<Rightarrow> string \<Rightarrow> string set" where
  "day_primary_values v rs d =
     {p. \<exists>r \<in> set rs. key_of r \<noteq> None \<and> day r = Str d \<and> primary_of_record v r = Str p
                       \<and> p \<noteq> [] \<and> p \<noteq> ''nan''}"

text \<open>Two rows with missing cells: the first lacks GROUP and INTAKE, the second lacks
  ROOM.\<close>

definition example_missing_cells :: frame where
  "example_missing_cells =
     \<lparr>columns = [''DAY'', ''START TIME'', ''SUBJECT'', ''TEACHER'', ''ROOM'', ''GROUP'', ''INTAKE''],
      rows = [[Str ''Mon'', Str ''08:05:00'', Str ''Math'', Str ''A'', Str ''101'', NaN, NaN],
              [Str ''Mon'', Str ''09:05:00'', Str ''Art'', Str ''B'', NaN, Str ''G1'', Str ''JAN'']]\<rparr>"

definition example_missing_cells_clean :: clean_frame where
  "example_missing_cells_clean =
     \<lparr>day_columns = 1,
      records =
        [\<lparr>idx = 0, day = Str ''Mon'', start_time = ''08:05:00'', subject = Str ''Math'',
          teacher = Str ''A'', room = Str ''101'', group_col = Str ''nan'',
          intake = Str ''nan'', intake_group = Str ''nan nan''\<rparr>,
         \<lparr>idx = 1, day = Str ''Mon'', start_time = ''09:05:00'', subject = Str ''Art'',
          teacher = Str ''B'', room = Str ''nan'', group_col = Str ''G1'',
          intake = Str ''JAN'', intake_group = Str ''JAN G1''\<rparr>]\<rparr>"

definition example_missing_cells_sheets :: "(string \<times> day_matrix) list" where
  "example_missing_cells_sheets =
     [(''Mon'',
       \<lparr>dm_columns = ''ROOM'' # generate_time_slots,
        dm_rows = [Some ''101''
                   # Some (''A'' @ [CHR 0x0A] @ ''Math'' @ [CHR 0x0A] @ ''nan nan'')
                   # Some (''A'' @ [CHR 0x0A] @ ''Math'' @ [CHR 0x0A] @ ''nan nan'')
                   # replicate 18 None]\<rparr>)]"

text \<open>The normalized form of \<open>example_case_days\<close> and the day matrices built from it in
  the room view.\<close>

definition example_case_days_clean :: clean_frame where
  "example_case_days_clean =
     \<lparr>day_columns = 1,
      records =
        [\<lparr>idx = 0, day = Str ''Mon'', start_time = ''08:05:00'', subject = Str [],
          teacher = Str [], room = Str ''R1'', group_col = Str [],
          intake = Str [], intake_group = Str '' ''\<rparr>,
         \<lparr>idx = 1, day = Str ''MON'', start_time = ''08:05:00'', subject = Str [],
          teacher = Str [], room = Str ''R2'', group_col = Str [],
          intake = Str [], intake_group = Str '' ''\<rparr>]\<rparr>"

definition example_sheet_R2 :: day_matrix where
  "example_sheet_R2 =
     \<lparr>dm_columns = ''ROOM'' # generate_time_slots,
      dm_rows = [Some ''R2'' # Some [CHR 0x0A, CHR 0x0A, CHR '' ''] # Some [CHR 0x0A, CHR 0x0A, CHR '' '']
                 # replicate 18 None]\<rparr>"

definition example_case_days_sheets :: "(string \<times> day_matrix) list" where
  "example_case_days_sheets = [(''MON'', example_sheet_R2), (''Mon'', example_sheet_R1)]"

text \<open>Two rows whose first day label starts with a blank; one row without a room.\<close>

definition example_blank_label :: frame where
  "example_blank_label =
     \<lparr>columns = [''DAY'', ''START TIME'', ''ROOM''],
      rows = [[Str '' Mon'', Str ''08:05:00'', Str ''R1''],
              [Str ''Mon'', Str ''08:05:00'', Str ''R2'']]\<rparr>"

definition example_no_room :: frame where
  "example_no_room =
     \<lparr>columns = [''DAY'', ''START TIME'', ''ROOM''],
      rows = [[Str ''Mon'', Str ''08:05:00'', NaN]]\<rparr>"

section \<open>Evaluation\<close>

lemma slots_loop_step:
  "current \<le> end_time \<Longrightarrow>
   slots_loop current end_time = strftime_HMS current # slots_loop (current + 30 * 60) end_time"
  by (subst slots_loop.simps) simp

lemma slots_loop_stop: "\<not> current \<le> end_time \<Longrightarrow> slots_loop current end_time = []"
  by (subst slots_loop.simps) simp

lemma time_slots_eq:
  "generate_time_slots =
     [''08:05:00'', ''08:35:00'', ''09:05:00'', ''09:35:00'', ''10:05:00'', ''10:35:00'',
      ''11:05:00'', ''11:35:00'', ''12:05:00'', ''12:35:00'', ''13:05:00'', ''13:35:00'',
      ''14:05:00'', ''14:35:00'', ''15:05:00'', ''15:35:00'', ''16:05:00'', ''16:35:00'',
      ''17:05:00'', ''17:35:00'']"
  unfolding generate_time_slots_def
  by (simp add: slots_loop_step slots_loop_stop strftime_HMS_def two_digits_def digit_char_def)

lemmas text_defs = upper_def strip_def isspace_def upper_char_def

lemmas load_defs = load_and_clean_data_def map_columns_def drop_column_def rename_column_def
  text_defs cell_at_def text_cols_def standardize_time_def strptime_HMS_def nat_strings_def
  digit_val_def make_record_def clean_text_def strftime_HMS_def two_digits_def digit_char_def
  enumerate_eq_zip

lemmas gen_defs = final_dfs_def df_grouped_def groupby_def keyed_rows_def key_of_def
  List.map_filter_def join_unique_def unique_days_def rank_of_def day_rank_def text_defs
  build_day_def unique_primary_def primary_val_def primary_col_def cell_text_def
  fill_row_def update_cell_def init_matrix_def separator_def

lemma upt_2: "[0 ..< 2] = [0, Suc 0]"
  by (simp add: upt_rec)

lemma upt_3: "[0 ..< 3] = [0, Suc 0, 2]"
  by (simp add: upt_rec)

lemma load_example_two_groups:
  "load_and_clean_data coerce example_two_groups =
     Inr \<lparr>day_columns = 1,
          records =
            [\<lparr>idx = 0, day = Str ''Mon'', start_time = ''08:05:00'', subject = Str ''Math'',
              teacher = Str ''A'', room = Str ''101'', group_col = Str ''G1'',
              intake = Str ''JAN'', intake_group = Str ''JAN G1''\<rparr>,
             \<lparr>idx = 1, day = Str ''Mon'', start_time = ''08:05:00'', subject = Str ''Math'',
              teacher = Str ''A'', room = Str ''101'', group_col = Str ''G2'',
              intake = Str ''JAN'', intake_group = Str ''JAN G2''\<rparr>]\<rparr>"
  by (simp add: example_two_groups_def load_defs upt_2)

section \<open>The end-to-end example\<close>

text \<open>
  Claim C1. The two rows of the example (day Mon, start 08:05:00, subject Math, teacher A,
  room 101, intake JAN, groups G1 and G2), normalized and then built in the room view,
  give exactly one day matrix, for the day label Mon. Its matrix has exactly one row, the row
  of room 101, and the cells of the columns 08:05:00 and 08:35:00 both hold the text
  A, Math, JAN G1, JAN G2 on four lines: the two groups are merged into one entry and no
  row is lost. Every other cell of the row is empty. This holds whatever the permissive
  time parser would return, since the strict parse succeeds.
\<close>

theorem C1_end_to_end_example:
  "pipeline coerce example_two_groups Room =
     Inr [(''Mon'',
           \<lparr>dm_columns = ''ROOM'' # generate_time_slots,
            dm_rows =
              [[Some ''101'',
                Some (''A'' @ [CHR 0x0A] @ ''Math'' @ [CHR 0x0A] @ ''JAN G1'' @ [CHR 0x0A] @ ''JAN G2''),
                Some (''A'' @ [CHR 0x0A] @ ''Math'' @ [CHR 0x0A] @ ''JAN G1'' @ [CHR 0x0A] @ ''JAN G2''),
                None, None, None, None, None, None, None, None, None,
                None, None, None, None, None, None, None, None, None]]\<rparr>)]"
  by (simp add: pipeline_def load_example_two_groups gen_defs time_slots_eq)

section \<open>Lists, cells and the filling of a matrix\<close>


lemma set_unique: "set (unique xs) = set xs"
  by (induction xs rule: unique.induct) auto

lemma distinct_unique: "distinct (unique xs)"
  by (induction xs rule: unique.induct) (auto simp: set_unique)

lemma sorted_unique: "sorted xs \<Longrightarrow> sorted (unique xs)"
  by (induction xs rule: unique.induct) (auto simp: set_unique sorted_filter[where f=id, simplified])

lemma unique_nil_iff: "unique xs = [] \<longleftrightarrow> xs = []"
  by (cases xs) auto

lemma update_cell_app: "update_cell m r c text = m((r, c) := app (m (r, c)) text)"
  by (simp add: update_cell_def app_def split: option.splits)

lemma fill_row_writes:
  "fill_row v index cols m e = foldl (\<lambda>m rc. update_cell m (fst rc) (snd rc) (cell_text v e)) m (writes v index cols e)"
  by (simp add: fill_row_def writes_def Let_def)

lemma foldl_update_at:
  "foldl (\<lambda>m rc. update_cell m (fst rc) (snd rc) text) m ws rc =
   foldl app (m rc) (map (\<lambda>_. text) (filter (\<lambda>w. w = rc) ws))"
  by (induction ws arbitrary: m) (auto simp: update_cell_app)

lemma fill_row_at:
  "fill_row v index cols m e rc = foldl app (m rc) (map (\<lambda>_. cell_text v e) (filter (\<lambda>w. w = rc) (writes v index cols e)))"
  by (simp add: fill_row_writes foldl_update_at)

lemma foldl_fill_at:
  "foldl (fill_row v index cols) m es rc = foldl app (m rc) (contributions v index cols rc es)"
  unfolding contributions_def
  by (induction es arbitrary: m) (simp_all add: fill_row_at)

lemma join_Cons_append: "join sep ((s @ x) # ts) = s @ join sep (x # ts)"
  by (cases ts) simp_all

lemma foldl_app_Some: "foldl app (Some s) ts = Some (join separator (s # ts))"
proof (induction ts arbitrary: s)
  case Nil
  show ?case by simp
next
  case (Cons a ts)
  have "join separator ((s @ separator @ a) # ts) = s @ separator @ join separator (a # ts)"
    using join_Cons_append[of separator s "separator @ a" ts] join_Cons_append[of separator separator a ts]
    by (cases ts) simp_all
  with Cons show ?case by (simp add: app_def)
qed

lemma foldl_app_None: "foldl app None ts = (if ts = [] then None else Some (join separator ts))"
  by (cases ts) (simp_all add: foldl_app_Some app_def)

lemma distinct_time_slots: "distinct generate_time_slots"
  by (simp add: time_slots_eq)

lemma length_time_slots: "length generate_time_slots = 20"
  by (simp add: time_slots_eq)

lemma primary_col_notin_slots: "primary_col v \<notin> set generate_time_slots"
  by (cases v) (simp_all add: primary_col_def time_slots_eq)

lemma index_of_nth: "distinct xs \<Longrightarrow> k < length xs \<Longrightarrow> index_of (xs ! k) xs = k"
proof (induction xs arbitrary: k)
  case Nil
  then show ?case by simp
next
  case (Cons x xs)
  then show ?case by (cases k) auto
qed

lemma index_of_slot:
  assumes "k < length generate_time_slots"
  shows "index_of (generate_time_slots ! k) (primary_col v # generate_time_slots) = Suc k"
proof -
  have "generate_time_slots ! k \<in> set generate_time_slots" using assms by simp
  then have "generate_time_slots ! k \<noteq> primary_col v" using primary_col_notin_slots by metis
  then show ?thesis using assms by (simp add: index_of_nth distinct_time_slots)
qed

lemma writes_slot:
  assumes "k < length generate_time_slots" "e_start e = generate_time_slots ! k"
    "primary_val v e \<in> set index"
  shows "writes v index (primary_col v # generate_time_slots) e =
           (primary_val v e, generate_time_slots ! k) #
           (if k + 1 < length generate_time_slots then [(primary_val v e, generate_time_slots ! (k + 1))] else [])"
  using assms by (simp add: writes_def index_of_slot del: index_of.simps)

lemma slot_neq_next:
  assumes "k + 1 < length generate_time_slots"
  shows "generate_time_slots ! k \<noteq> generate_time_slots ! (k + 1)"
  using assms distinct_time_slots by (simp add: nth_eq_iff_index_eq)

lemma init_matrix_slot: "c \<in> set generate_time_slots \<Longrightarrow> init_matrix v (r, c) = None"
  using primary_col_notin_slots[of v] by (auto simp: init_matrix_def)

lemma contributions_mem:
  assumes "e \<in> set es" "rc \<in> set (writes v index cols e)"
  shows "cell_text v e \<in> set (contributions v index cols rc es)"
  using assms unfolding contributions_def by (auto simp: filter_empty_conv intro!: bexI[of _ e])

lemma filled_cell:
  assumes "c \<in> set generate_time_slots"
  shows "foldl (fill_row v index cols) (init_matrix v) es (r, c) =
           (if contributions v index cols (r, c) es = [] then None
            else Some (join separator (contributions v index cols (r, c) es)))"
  by (simp add: foldl_fill_at init_matrix_slot[OF assms] foldl_app_None)

section \<open>Placing one entry: the spillover\<close>

lemma fill_row_slot:
  assumes k: "k < length generate_time_slots"
    and start: "e_start e = generate_time_slots ! k"
    and placed: "primary_val v e \<in> set index"
  shows "fill_row v index (primary_col v # generate_time_slots) m e =
           (if k + 1 < length generate_time_slots
            then update_cell
                   (update_cell m (primary_val v e) (generate_time_slots ! k) (cell_text v e))
                   (primary_val v e) (generate_time_slots ! (k + 1)) (cell_text v e)
            else update_cell m (primary_val v e) (generate_time_slots ! k) (cell_text v e))"
  by (simp add: fill_row_writes writes_slot[OF k start placed])

lemma filled_cell_has_text:
  assumes mem: "e \<in> set day_data"
    and w: "(r, c) \<in> set (writes v index cols e)"
    and c: "c \<in> set generate_time_slots"
  shows "\<exists>ts. foldl (fill_row v index cols) (init_matrix v) day_data (r, c) = Some (join separator ts)
              \<and> cell_text v e \<in> set ts"
proof -
  have in_c: "cell_text v e \<in> set (contributions v index cols (r, c) day_data)"
    by (rule contributions_mem[OF mem w])
  then have "contributions v index cols (r, c) day_data \<noteq> []" by auto
  with in_c show ?thesis by (auto simp: filled_cell[OF c])
qed

text \<open>
  Claim C2. Take an occupancy entry that the builder places, that is, whose primary value
  is a row label of the day's matrix (line 155 skips the others), and whose start time is
  the slot \<open>k\<close> of the fixed axis. If \<open>k\<close> is not the last slot, placing the entry writes its
  text into the cell of slot \<open>k\<close> and then into the cell of slot \<open>k + 1\<close> of its row; if
  \<open>k\<close> is the last slot, the cell of slot \<open>k\<close> is the only one written. Accordingly, once
  all the entries of the day are placed, the text of the entry is one of the pieces of
  the cell of slot \<open>k\<close>, and of the cell of slot \<open>k + 1\<close> when there is one.
\<close>

theorem C2_spillover:
  assumes k: "k < length generate_time_slots"
    and start: "e_start e = generate_time_slots ! k"
    and placed: "primary_val v e \<in> set index"
  shows "fill_row v index (primary_col v # generate_time_slots) m e =
           (if k + 1 < length generate_time_slots
            then update_cell
                   (update_cell m (primary_val v e) (generate_time_slots ! k) (cell_text v e))
                   (primary_val v e) (generate_time_slots ! (k + 1)) (cell_text v e)
            else update_cell m (primary_val v e) (generate_time_slots ! k) (cell_text v e))
       \<and> (e \<in> set day_data \<longrightarrow>
            (\<exists>ts. foldl (fill_row v index (primary_col v # generate_time_slots)) (init_matrix v) day_data
                    (primary_val v e, generate_time_slots ! k) = Some (join separator ts)
                  \<and> cell_text v e \<in> set ts)
          \<and> (k + 1 < length generate_time_slots \<longrightarrow>
              (\<exists>ts. foldl (fill_row v index (primary_col v # generate_time_slots)) (init_matrix v) day_data
                      (primary_val v e, generate_time_slots ! (k + 1)) = Some (join separator ts)
                    \<and> cell_text v e \<in> set ts)))"
proof (intro conjI impI)
  show "fill_row v index (primary_col v # generate_time_slots) m e =
           (if k + 1 < length generate_time_slots
            then update_cell
                   (update_cell m (primary_val v e) (generate_time_slots ! k) (cell_text v e))
                   (primary_val v e) (generate_time_slots ! (k + 1)) (cell_text v e)
            else update_cell m (primary_val v e) (generate_time_slots ! k) (cell_text v e))"
    by (rule fill_row_slot[OF k start placed])
next
  assume mem: "e \<in> set day_data"
  have "(primary_val v e, generate_time_slots ! k) \<in> set (writes v index (primary_col v # generate_time_slots) e)"
    by (simp add: writes_slot[OF k start placed])
  moreover have "generate_time_slots ! k \<in> set generate_time_slots" using k by simp
  ultimately show "\<exists>ts. foldl (fill_row v index (primary_col v # generate_time_slots)) (init_matrix v) day_data
                    (primary_val v e, generate_time_slots ! k) = Some (join separator ts)
                  \<and> cell_text v e \<in> set ts"
    using filled_cell_has_text[OF mem] by blast
next
  assume mem: "e \<in> set day_data" and k1: "k + 1 < length generate_time_slots"
  have "(primary_val v e, generate_time_slots ! (k + 1)) \<in> set (writes v index (primary_col v # generate_time_slots) e)"
    using k1 by (simp add: writes_slot[OF k start placed])
  moreover have "generate_time_slots ! (k + 1) \<in> set generate_time_slots" using k1 by simp
  ultimately show "\<exists>ts. foldl (fill_row v index (primary_col v # generate_time_slots)) (init_matrix v) day_data
                    (primary_val v e, generate_time_slots ! (k + 1)) = Some (join separator ts)
                  \<and> cell_text v e \<in> set ts"
    using filled_cell_has_text[OF mem] by blast
qed

theorem C2_spillover_witness:
  "(0::nat) < length generate_time_slots
   \<and> e_start example_entry = generate_time_slots ! 0
   \<and> primary_val Room example_entry \<in> set [''101'']
   \<and> fill_row Room [''101''] (primary_col Room # generate_time_slots) (init_matrix Room) example_entry =
       update_cell (update_cell (init_matrix Room) ''101'' ''08:05:00'' (cell_text Room example_entry))
         ''101'' ''08:35:00'' (cell_text Room example_entry)
   \<and> (19::nat) < length generate_time_slots
   \<and> e_start example_last_entry = generate_time_slots ! 19
   \<and> fill_row Room [''101''] (primary_col Room # generate_time_slots) (init_matrix Room) example_last_entry =
       update_cell (init_matrix Room) ''101'' ''17:35:00'' (cell_text Room example_last_entry)"
proof -
  have h1: "(0::nat) < length generate_time_slots" by (simp add: length_time_slots)
  have h2: "e_start example_entry = generate_time_slots ! 0"
    by (simp add: example_entry_def time_slots_eq)
  have h3: "primary_val Room example_entry \<in> set [''101'']"
    by (simp add: example_entry_def primary_val_def)
  have g1: "(19::nat) < length generate_time_slots" by (simp add: length_time_slots)
  have g2: "e_start example_last_entry = generate_time_slots ! 19"
    by (simp add: example_last_entry_def time_slots_eq)
  have g3: "primary_val Room example_last_entry \<in> set [''101'']"
    by (simp add: example_last_entry_def primary_val_def)
  have s1: "generate_time_slots ! 0 = ''08:05:00''" "generate_time_slots ! Suc 0 = ''08:35:00''"
    "generate_time_slots ! 19 = ''17:35:00''"
    by (simp_all add: time_slots_eq)
  have p1: "primary_val Room example_entry = ''101''" "primary_val Room example_last_entry = ''101''"
    by (simp_all add: example_entry_def example_last_entry_def primary_val_def)
  from C2_spillover[OF h1 h2 h3, of "init_matrix Room" "[]"] C2_spillover[OF g1 g2 g3, of "init_matrix Room" "[]"]
  show ?thesis
    using h1 h2 h3 g1 g2 by (simp add: length_time_slots s1 p1)
qed

section \<open>Writing into a cell: the collision rule\<close>

lemma contributions_append:
  "contributions v index cols rc (xs @ ys) = contributions v index cols rc xs @ contributions v index cols rc ys"
  by (simp add: contributions_def)

lemma contributions_Cons:
  "contributions v index cols rc (e # es) =
     map (\<lambda>_. cell_text v e) (filter (\<lambda>w. w = rc) (writes v index cols e)) @ contributions v index cols rc es"
  by (simp add: contributions_def)

lemma contributions_start:
  assumes k: "k < length generate_time_slots"
    and start: "e_start e = generate_time_slots ! k"
    and placed: "primary_val v e \<in> set index"
  shows "contributions v index (primary_col v # generate_time_slots) (primary_val v e, generate_time_slots ! k) (e # es) =
           cell_text v e # contributions v index (primary_col v # generate_time_slots) (primary_val v e, generate_time_slots ! k) es"
proof (cases "k + 1 < length generate_time_slots")
  case True
  from slot_neq_next[OF True] show ?thesis
    by (simp add: contributions_Cons writes_slot[OF k start placed] True)
next
  case False
  then show ?thesis
    by (simp add: contributions_Cons writes_slot[OF k start placed])
qed

lemma update_cell_same:
  "update_cell m r c text (r, c) = (case m (r, c) of None \<Rightarrow> Some text | Some old \<Rightarrow> Some (old @ separator @ text))"
  by (simp add: update_cell_def split: option.splits)

lemma update_cell_other: "rc \<noteq> (r, c) \<Longrightarrow> update_cell m r c text rc = m rc"
  by (simp add: update_cell_def split: option.splits)

text \<open>
  Claim C4. Writing a text into a cell never overwrites what the cell holds: an empty
  cell receives the text as it is; a cell with content receives the content, then the
  separator line (a line break, three hyphens, a line break) and then the text; no other
  cell changes. So when two entries of a day share the primary value (a row of the
  matrix) and the start time (a slot of the axis), the cell of that row and slot ends up
  holding both texts as pieces between separator lines, the text of the entry placed
  first before the text of the entry placed second; when these two are the only entries
  of the day, the cell is the first text, the separator line and the second text.
\<close>

theorem C4_collision_merge:
  "update_cell m r c text (r, c) =
     (case m (r, c) of
        None \<Rightarrow> Some text
      | Some old \<Rightarrow> Some (old @ [CHR 0x0A] @ ''---'' @ [CHR 0x0A] @ text))
   \<and> (\<forall>rc. rc \<noteq> (r, c) \<longrightarrow> update_cell m r c text rc = m rc)
   \<and> (k < length generate_time_slots \<and> p \<in> set index
        \<and> primary_val v e1 = p \<and> primary_val v e2 = p
        \<and> e_start e1 = generate_time_slots ! k \<and> e_start e2 = generate_time_slots ! k
      \<longrightarrow> (\<exists>as bs cs.
             foldl (fill_row v index (primary_col v # generate_time_slots)) (init_matrix v)
               (xs @ e1 # ys @ e2 # zs) (p, generate_time_slots ! k)
             = Some (join ([CHR 0x0A] @ ''---'' @ [CHR 0x0A])
                      (as @ cell_text v e1 # bs @ cell_text v e2 # cs)))
          \<and> foldl (fill_row v index (primary_col v # generate_time_slots)) (init_matrix v)
               [e1, e2] (p, generate_time_slots ! k)
             = Some (cell_text v e1 @ [CHR 0x0A] @ ''---'' @ [CHR 0x0A] @ cell_text v e2))"
proof (intro conjI allI impI)
  show "update_cell m r c text (r, c) =
     (case m (r, c) of
        None \<Rightarrow> Some text
      | Some old \<Rightarrow> Some (old @ [CHR 0x0A] @ ''---'' @ [CHR 0x0A] @ text))"
    by (simp add: update_cell_same separator_def split: option.splits)
next
  fix rc :: "string \<times> string"
  assume "rc \<noteq> (r, c)"
  then show "update_cell m r c text rc = m rc" by (rule update_cell_other)
next
  assume h: "k < length generate_time_slots \<and> p \<in> set index
        \<and> primary_val v e1 = p \<and> primary_val v e2 = p
        \<and> e_start e1 = generate_time_slots ! k \<and> e_start e2 = generate_time_slots ! k"
  let ?cols = "primary_col v # generate_time_slots"
  let ?rc = "(p, generate_time_slots ! k)"
  let ?C = "contributions v index ?cols ?rc"
  from h have k: "k < length generate_time_slots" by simp
  from h have e1: "e_start e1 = generate_time_slots ! k" "primary_val v e1 \<in> set index" by simp_all
  from h have e2: "e_start e2 = generate_time_slots ! k" "primary_val v e2 \<in> set index" by simp_all
  from h have p1: "primary_val v e1 = p" and p2: "primary_val v e2 = p" by simp_all
  have c2: "?C (e2 # zs) = cell_text v e2 # ?C zs"
    using contributions_start[OF k e2, of zs] by (simp add: p2)
  have c1: "?C (e1 # ys @ e2 # zs) = cell_text v e1 # ?C ys @ cell_text v e2 # ?C zs"
    using contributions_start[OF k e1, of "ys @ e2 # zs"] by (simp add: p1 contributions_append c2)
  have all: "?C (xs @ e1 # ys @ e2 # zs) = ?C xs @ cell_text v e1 # ?C ys @ cell_text v e2 # ?C zs"
    by (simp add: contributions_append[of v index ?cols ?rc xs] c1)
  have slot: "generate_time_slots ! k \<in> set generate_time_slots" using k by simp
  have "foldl (fill_row v index ?cols) (init_matrix v) (xs @ e1 # ys @ e2 # zs) ?rc
          = Some (join separator (?C xs @ cell_text v e1 # ?C ys @ cell_text v e2 # ?C zs))"
    unfolding filled_cell[OF slot] all by simp
  then have "foldl (fill_row v index ?cols) (init_matrix v) (xs @ e1 # ys @ e2 # zs) ?rc
          = Some (join ([CHR 0x0A] @ ''---'' @ [CHR 0x0A])
                   (?C xs @ cell_text v e1 # ?C ys @ cell_text v e2 # ?C zs))"
    by (simp only: separator_def)
  then show "\<exists>as bs cs.
             foldl (fill_row v index ?cols) (init_matrix v)
               (xs @ e1 # ys @ e2 # zs) (p, generate_time_slots ! k)
             = Some (join ([CHR 0x0A] @ ''---'' @ [CHR 0x0A])
                      (as @ cell_text v e1 # bs @ cell_text v e2 # cs))"
    by blast
  have c2': "?C [e2] = [cell_text v e2]"
    using contributions_start[OF k e2, of "[]"] by (simp add: p2 contributions_def)
  have two: "?C [e1, e2] = [cell_text v e1, cell_text v e2]"
    using contributions_start[OF k e1, of "[e2]"] by (simp add: p1 c2')
  have "foldl (fill_row v index ?cols) (init_matrix v) [e1, e2] ?rc
          = Some (join separator [cell_text v e1, cell_text v e2])"
    unfolding filled_cell[OF slot] two by simp
  then show "foldl (fill_row v index ?cols) (init_matrix v) [e1, e2] (p, generate_time_slots ! k)
             = Some (cell_text v e1 @ [CHR 0x0A] @ ''---'' @ [CHR 0x0A] @ cell_text v e2)"
    by (simp add: separator_def)
qed

theorem C4_collision_merge_witness:
  "(0::nat) < length generate_time_slots \<and> ''101'' \<in> set [''101'']
   \<and> primary_val Room example_entry = ''101'' \<and> primary_val Room example_collision_entry = ''101''
   \<and> e_start example_entry = generate_time_slots ! 0
   \<and> e_start example_collision_entry = generate_time_slots ! 0
   \<and> foldl (fill_row Room [''101''] (primary_col Room # generate_time_slots)) (init_matrix Room)
        [example_entry, example_collision_entry] (''101'', ''08:05:00'')
      = Some (''A'' @ [CHR 0x0A] @ ''Math'' @ [CHR 0x0A] @ ''JAN G1''
              @ [CHR 0x0A] @ ''---'' @ [CHR 0x0A]
              @ ''B'' @ [CHR 0x0A] @ ''Physics'' @ [CHR 0x0A] @ ''FEB G3'')"
proof -
  have h: "(0::nat) < length generate_time_slots \<and> ''101'' \<in> set [''101'']
   \<and> primary_val Room example_entry = ''101'' \<and> primary_val Room example_collision_entry = ''101''
   \<and> e_start example_entry = generate_time_slots ! 0
   \<and> e_start example_collision_entry = generate_time_slots ! 0"
    by (simp add: length_time_slots time_slots_eq example_entry_def example_collision_entry_def
        primary_val_def)
  have s0: "generate_time_slots ! 0 = ''08:05:00''" by (simp add: time_slots_eq)
  have t: "cell_text Room example_entry = ''A'' @ [CHR 0x0A] @ ''Math'' @ [CHR 0x0A] @ ''JAN G1''"
    "cell_text Room example_collision_entry = ''B'' @ [CHR 0x0A] @ ''Physics'' @ [CHR 0x0A] @ ''FEB G3''"
    by (simp_all add: cell_text_def example_entry_def example_collision_entry_def)
  from C4_collision_merge[where k = 0 and p = "''101''" and index = "[''101'']" and v = Room
      and ?e1.0 = example_entry and ?e2.0 = example_collision_entry] h
  have "foldl (fill_row Room [''101''] (primary_col Room # generate_time_slots)) (init_matrix Room)
          [example_entry, example_collision_entry] (''101'', generate_time_slots ! 0)
        = Some (cell_text Room example_entry @ [CHR 0x0A] @ ''---'' @ [CHR 0x0A]
                @ cell_text Room example_collision_entry)"
    by blast
  with h show ?thesis by (simp add: s0 t)
qed

section \<open>The rows that survive normalization\<close>

lemma length_strftime: "length (strftime_HMS t) = 8"
  by (simp add: strftime_HMS_def two_digits_def)

lemma strftime_not_nil: "strftime_HMS t \<noteq> []"
  using length_strftime[of t] by auto

lemma strftime_not_primary: "strftime_HMS t \<noteq> primary_col v"
proof
  assume "strftime_HMS t = primary_col v"
  then have "length (primary_col v) = 8" using length_strftime[of t] by simp
  then show False by (cases v) (simp_all add: primary_col_def)
qed

lemma dropna_iff: "(i, r, t) \<in> set (dropna xs) \<longleftrightarrow> (i, r, Stamp t) \<in> set xs"
  by (induction xs rule: dropna.induct) auto

lemma load_Inr:
  assumes "load_and_clean_data coerce df0 = Inr df"
  shows "''START TIME'' \<in> set (columns (map_columns df0))"
    and "day_columns df = count_list (columns (map_columns df0)) ''DAY''"
    and "records df = map (make_record (columns (map_columns df0)) (length (kept_rows coerce (map_columns df0))))
                        (kept_rows coerce (map_columns df0))"
  using assms
  by (auto simp: load_and_clean_data_def Let_def kept_rows_def parsed_times_def split: if_splits)

lemma kept_rows_iff:
  "(i, r, t) \<in> set (kept_rows coerce df) \<longleftrightarrow>
     i < length (rows df) \<and> i < length (parsed_times coerce df) \<and> r = rows df ! i
     \<and> parsed_times coerce df ! i = Stamp t"
proof -
  have "(i, r, Stamp t) \<in> set (zip [0 ..< length (rows df)] (zip (rows df) (parsed_times coerce df))) \<longleftrightarrow>
     i < length (rows df) \<and> i < length (parsed_times coerce df) \<and> r = rows df ! i
     \<and> parsed_times coerce df ! i = Stamp t" (is "?L \<longleftrightarrow> ?R")
  proof
    assume ?L
    then obtain n where n: "[0 ..< length (rows df)] ! n = i"
      "zip (rows df) (parsed_times coerce df) ! n = (r, Stamp t)"
      "n < length (rows df)" "n < length (parsed_times coerce df)"
      by (auto simp: in_set_zip)
    then have "n = i" by simp
    with n show ?R by auto
  next
    assume R: ?R
    then have "[0 ..< length (rows df)] ! i = i \<and>
      zip (rows df) (parsed_times coerce df) ! i = (r, Stamp t) \<and>
      i < length (rows df) \<and> i < length (parsed_times coerce df)" by simp
    then show ?L unfolding in_set_zip by (intro exI[of _ i]) simp
  qed
  then show ?thesis by (simp add: kept_rows_def dropna_iff)
qed

lemma start_time_make_record: "start_time (make_record cols n (i, row, t)) = strftime_HMS t"
  by (simp add: make_record_def)

lemma idx_make_record: "idx (make_record cols n (i, row, t)) = i"
  by (simp add: make_record_def)

lemma record_origin:
  assumes "load_and_clean_data coerce df0 = Inr df" and "r \<in> set (records df)"
  shows "\<exists>t. idx r < length (rows (map_columns df0))
            \<and> idx r < length (parsed_times coerce (map_columns df0))
            \<and> parsed_times coerce (map_columns df0) ! idx r = Stamp t
            \<and> r = make_record (columns (map_columns df0)) (length (records df))
                    (idx r, rows (map_columns df0) ! idx r, t)"
proof -
  let ?dfm = "map_columns df0"
  from assms load_Inr(3)[OF assms(1)]
  obtain x where x: "x \<in> set (kept_rows coerce ?dfm)"
    and r: "r = make_record (columns ?dfm) (length (kept_rows coerce ?dfm)) x"
    by auto
  obtain i row t where xe: "x = (i, row, t)" by (cases x) auto
  have len: "length (records df) = length (kept_rows coerce ?dfm)"
    by (simp add: load_Inr(3)[OF assms(1)])
  have i: "idx r = i" by (simp add: r xe idx_make_record)
  from x xe kept_rows_iff[of i row t coerce ?dfm]
  have "i < length (rows ?dfm) \<and> i < length (parsed_times coerce ?dfm) \<and> row = rows ?dfm ! i
     \<and> parsed_times coerce ?dfm ! i = Stamp t" by simp
  then show ?thesis using r xe i len by auto
qed

lemma record_start_time:
  assumes "load_and_clean_data coerce df0 = Inr df" and "r \<in> set (records df)"
  shows "\<exists>t. start_time r = strftime_HMS t \<and> parsed_times coerce (map_columns df0) ! idx r = Stamp t"
proof -
  from record_origin[OF assms] obtain t where
    "parsed_times coerce (map_columns df0) ! idx r = Stamp t"
    "r = make_record (columns (map_columns df0)) (length (records df)) (idx r, rows (map_columns df0) ! idx r, t)"
    by blast
  then have "start_time r = strftime_HMS t \<and> parsed_times coerce (map_columns df0) ! idx r = Stamp t"
    using start_time_make_record[of "columns (map_columns df0)" "length (records df)" "idx r" "rows (map_columns df0) ! idx r" t]
    by simp
  then show ?thesis by blast
qed

lemma surviving_labels:
  assumes "load_and_clean_data coerce df0 = Inr df"
  shows "idx ` set (records df) =
           {i. i < length (rows (map_columns df0)) \<and> i < length (parsed_times coerce (map_columns df0))
               \<and> (\<exists>t. parsed_times coerce (map_columns df0) ! i = Stamp t)}"
proof -
  let ?dfm = "map_columns df0"
  have "idx \<circ> make_record (columns ?dfm) (length (kept_rows coerce ?dfm)) = fst"
    by (rule ext) (auto simp: idx_make_record)
  then have "idx ` set (records df) = fst ` set (kept_rows coerce ?dfm)"
    by (simp add: load_Inr(3)[OF assms] image_image idx_make_record split_beta) (metis comp_apply image_cong)
  also have "\<dots> = {i. i < length (rows ?dfm) \<and> i < length (parsed_times coerce ?dfm)
               \<and> (\<exists>t. parsed_times coerce ?dfm ! i = Stamp t)}" (is "?A = ?B")
  proof (rule set_eqI)
    fix i
    have "i \<in> ?A \<longleftrightarrow> (\<exists>r t. (i, r, t) \<in> set (kept_rows coerce ?dfm))"
      by force
    also have "\<dots> \<longleftrightarrow> i \<in> ?B" by (simp add: kept_rows_iff)
    finally show "i \<in> ?A \<longleftrightarrow> i \<in> ?B" .
  qed
  finally show ?thesis .
qed

lemma off_axis_not_written:
  assumes "e_start e \<notin> set generate_time_slots" and "e_start e \<noteq> primary_col v"
  shows "fill_row v index (primary_col v # generate_time_slots) m e = m"
  using assms by (simp add: fill_row_def)

section \<open>Start times after normalization\<close>

lemma those_length: "those xs = Some ys \<Longrightarrow> length ys = length xs"
  by (induction xs arbitrary: ys) (auto split: option.splits)

lemma length_standardize_time: "length (standardize_time coerce col) = length col"
  by (auto simp: standardize_time_def those_length split: option.splits)

lemma length_parsed_times: "length (parsed_times coerce df) = length (rows df)"
  by (simp add: parsed_times_def length_standardize_time)

lemma load_example_off_axis:
  "load_and_clean_data coerce example_off_axis =
     Inr \<lparr>day_columns = 1,
          records =
            [\<lparr>idx = 0, day = Str ''Mon'', start_time = ''09:00:00'', subject = Str ''Math'',
              teacher = Str ''A'', room = Str ''101'', group_col = Str ''G1'',
              intake = Str ''JAN'', intake_group = Str ''JAN G1''\<rparr>]\<rparr>"
  by (simp add: example_off_axis_def load_defs)

text \<open>
  Claim C3 fails as stated: normalization keeps a row whose start time parses, whether or
  not the time is a slot of the axis. The row of \<open>example_off_axis\<close> starts at 09:00:00,
  which is no slot of the axis, and it survives.
\<close>

theorem C3_counterexample:
  "load_and_clean_data coerce_none example_off_axis =
     Inr \<lparr>day_columns = 1,
          records =
            [\<lparr>idx = 0, day = Str ''Mon'', start_time = ''09:00:00'', subject = Str ''Math'',
              teacher = Str ''A'', room = Str ''101'', group_col = Str ''G1'',
              intake = Str ''JAN'', intake_group = Str ''JAN G1''\<rparr>]\<rparr>
   \<and> ''09:00:00'' \<notin> set generate_time_slots"
  by (simp add: load_example_off_axis time_slots_eq)

text \<open>
  Claim C3, as amended. Every record that survives normalization has a non-empty start
  time of the form HH:MM:SS (eight characters), the formatted parse of the start-time
  cell of its row, and the rows that survive are exactly the rows whose start time
  parses: a row whose start time is missing or does not parse is excluded during
  normalization. Normalization does not compare the start time with the slot axis; an
  entry whose start time is off the axis is kept, and it is the grid builder (line 163)
  that then writes it to no cell.
\<close>

theorem C3_start_time_parsed:
  assumes "load_and_clean_data coerce df0 = Inr df"
  shows "(\<forall>r \<in> set (records df).
            start_time r \<noteq> [] \<and> length (start_time r) = 8
            \<and> (\<exists>t. start_time r = strftime_HMS t
                    \<and> parsed_times coerce (map_columns df0) ! idx r = Stamp t))
       \<and> idx ` set (records df) =
            {i. i < length (rows (map_columns df0))
                \<and> (\<exists>t. parsed_times coerce (map_columns df0) ! i = Stamp t)}
       \<and> (\<forall>r \<in> set (records df). \<forall>e.
            e_start e = start_time r \<and> start_time r \<notin> set generate_time_slots
            \<longrightarrow> fill_row v index (primary_col v # generate_time_slots) m e = m)"
proof (intro conjI ballI allI impI)
  fix r assume r: "r \<in> set (records df)"
  from record_start_time[OF assms r] obtain t where
    t: "start_time r = strftime_HMS t" "parsed_times coerce (map_columns df0) ! idx r = Stamp t"
    by blast
  show "start_time r \<noteq> []" by (simp add: t strftime_not_nil)
  show "length (start_time r) = 8" by (simp add: t length_strftime)
  show "\<exists>t. start_time r = strftime_HMS t \<and> parsed_times coerce (map_columns df0) ! idx r = Stamp t"
    using t by blast
next
  show "idx ` set (records df) =
            {i. i < length (rows (map_columns df0))
                \<and> (\<exists>t. parsed_times coerce (map_columns df0) ! i = Stamp t)}"
    by (simp add: surviving_labels[OF assms] length_parsed_times)
next
  fix r e
  assume r: "r \<in> set (records df)"
    and e: "e_start e = start_time r \<and> start_time r \<notin> set generate_time_slots"
  from record_start_time[OF assms r] obtain t where "start_time r = strftime_HMS t" by blast
  then have "e_start e \<noteq> primary_col v" using e by (simp add: strftime_not_primary)
  with e show "fill_row v index (primary_col v # generate_time_slots) m e = m"
    by (simp add: off_axis_not_written)
qed

theorem C3_start_time_parsed_witness:
  "load_and_clean_data coerce_none example_off_axis =
     Inr \<lparr>day_columns = 1,
          records =
            [\<lparr>idx = 0, day = Str ''Mon'', start_time = ''09:00:00'', subject = Str ''Math'',
              teacher = Str ''A'', room = Str ''101'', group_col = Str ''G1'',
              intake = Str ''JAN'', intake_group = Str ''JAN G1''\<rparr>]\<rparr>
   \<and> length ''09:00:00'' = 8
   \<and> parsed_times coerce_none (map_columns example_off_axis) ! 0 = Stamp (9 * 3600)
   \<and> fill_row Room [''101''] (primary_col Room # generate_time_slots) (init_matrix Room)
        ((''Mon'', ''09:00:00'', ''Math'', ''A'', ''101''), ''JAN G1'') = init_matrix Room"
proof -
  let ?r = "\<lparr>idx = 0, day = Str ''Mon'', start_time = ''09:00:00'', subject = Str ''Math'',
              teacher = Str ''A'', room = Str ''101'', group_col = Str ''G1'',
              intake = Str ''JAN'', intake_group = Str ''JAN G1''\<rparr>"
  have h: "load_and_clean_data coerce_none example_off_axis = Inr \<lparr>day_columns = 1, records = [?r]\<rparr>"
    by (rule load_example_off_axis)
  note th = C3_start_time_parsed[OF h, where v = Room and index = "[''101'']" and m = "init_matrix Room"]
  have p: "parsed_times coerce_none (map_columns example_off_axis) ! 0 = Stamp (9 * 3600)"
    by (simp add: parsed_times_def example_off_axis_def load_defs)
  from th have "\<forall>e. e_start e = ''09:00:00'' \<and> ''09:00:00'' \<notin> set generate_time_slots
            \<longrightarrow> fill_row Room [''101''] (primary_col Room # generate_time_slots) (init_matrix Room) e = init_matrix Room"
    by simp
  then have f: "fill_row Room [''101''] (primary_col Room # generate_time_slots) (init_matrix Room)
        ((''Mon'', ''09:00:00'', ''Math'', ''A'', ''101''), ''JAN G1'') = init_matrix Room"
    by (simp add: time_slots_eq)
  from h p f show ?thesis by simp
qed

section \<open>The schema check and the default of absent columns\<close>

lemma load_schema_error_iff:
  "(\<exists>found. load_and_clean_data coerce df0 = Inl (MissingStartTime found)) \<longleftrightarrow>
     ''START TIME'' \<notin> set (columns (map_columns df0))"
  by (auto simp: load_and_clean_data_def Let_def)

lemma load_schema_error_columns:
  "load_and_clean_data coerce df0 = Inl (MissingStartTime found) \<Longrightarrow>
     found = columns (map_columns df0)"
  by (auto simp: load_and_clean_data_def Let_def split: if_splits)

lemma load_with_start_time:
  assumes "''START TIME'' \<in> set (columns (map_columns df0))"
  shows "(\<exists>df. load_and_clean_data coerce df0 = Inr df)
       \<or> (load_and_clean_data coerce df0 = Inl AttributeError
           \<and> (\<exists>c \<in> set (''START TIME'' # text_cols). 1 < count_list (columns (map_columns df0)) c))"
  using assms by (auto simp: load_and_clean_data_def Let_def list_ex_iff)

lemma load_attribute_error:
  assumes "load_and_clean_data coerce df0 = Inl AttributeError"
  shows "\<exists>c \<in> set (''START TIME'' # text_cols). 1 < count_list (columns (map_columns df0)) c"
  using assms by (auto simp: load_and_clean_data_def Let_def list_ex_iff split: if_splits)

lemma clean_text_absent:
  "c \<notin> set cols \<Longrightarrow> i < n \<Longrightarrow> clean_text cols n i row c = Str []"
  by (simp add: clean_text_def)

lemma cell_at_absent: "c \<notin> set cols \<Longrightarrow> cell_at cols row c = NaN"
proof -
  assume "c \<notin> set cols"
  then have "c \<notin> fst ` set (zip cols row)" by (auto dest: set_zip_leftD)
  then have "map_of (zip cols row) c = None" by (simp add: map_of_eq_None_iff)
  then show ?thesis by (simp add: cell_at_def)
qed

lemma record_fields:
  assumes "load_and_clean_data coerce df0 = Inr df" and "r \<in> set (records df)"
  shows "subject r = clean_text (columns (map_columns df0)) (length (records df)) (idx r) (rows (map_columns df0) ! idx r) ''SUBJECT''"
    and "teacher r = clean_text (columns (map_columns df0)) (length (records df)) (idx r) (rows (map_columns df0) ! idx r) ''TEACHER''"
    and "room r = clean_text (columns (map_columns df0)) (length (records df)) (idx r) (rows (map_columns df0) ! idx r) ''ROOM''"
    and "group_col r = clean_text (columns (map_columns df0)) (length (records df)) (idx r) (rows (map_columns df0) ! idx r) ''GROUP''"
    and "intake r = clean_text (columns (map_columns df0)) (length (records df)) (idx r) (rows (map_columns df0) ! idx r) ''INTAKE''"
    and "day r = cell_at (columns (map_columns df0)) (rows (map_columns df0) ! idx r) ''DAY''"
    and "intake_group r = add_cells (add_cells (intake r) (Str '' '')) (group_col r)"
proof -
  from record_origin[OF assms] obtain t where
    r: "r = make_record (columns (map_columns df0)) (length (records df)) (idx r, rows (map_columns df0) ! idx r, t)"
    by blast
  show "subject r = clean_text (columns (map_columns df0)) (length (records df)) (idx r) (rows (map_columns df0) ! idx r) ''SUBJECT''"
    by (subst r) (simp add: make_record_def)
  show "teacher r = clean_text (columns (map_columns df0)) (length (records df)) (idx r) (rows (map_columns df0) ! idx r) ''TEACHER''"
    by (subst r) (simp add: make_record_def)
  show "room r = clean_text (columns (map_columns df0)) (length (records df)) (idx r) (rows (map_columns df0) ! idx r) ''ROOM''"
    by (subst r) (simp add: make_record_def)
  show "group_col r = clean_text (columns (map_columns df0)) (length (records df)) (idx r) (rows (map_columns df0) ! idx r) ''GROUP''"
    by (subst r) (simp add: make_record_def)
  show "intake r = clean_text (columns (map_columns df0)) (length (records df)) (idx r) (rows (map_columns df0) ! idx r) ''INTAKE''"
    by (subst r) (simp add: make_record_def)
  show "day r = cell_at (columns (map_columns df0)) (rows (map_columns df0) ! idx r) ''DAY''"
    by (subst r) (simp add: make_record_def)
  show "intake_group r = add_cells (add_cells (intake r) (Str '' '')) (group_col r)"
    by (subst r, subst (2) r, subst (3) r) (simp add: make_record_def)
qed

lemma load_example_only_start_time:
  "load_and_clean_data coerce example_only_start_time =
     Inr \<lparr>day_columns = 0,
          records =
            [\<lparr>idx = 0, day = NaN, start_time = ''08:05:00'', subject = Str [],
              teacher = Str [], room = Str [], group_col = Str [],
              intake = Str [], intake_group = Str '' ''\<rparr>]\<rparr>"
  by (simp add: example_only_start_time_def load_defs)

lemma load_example_no_start_time:
  "load_and_clean_data coerce example_no_start_time = Inl (MissingStartTime [''SUBJECT'', ''TEACHER''])"
  by (simp add: example_no_start_time_def load_defs)

text \<open>
  Claim C6 fails as stated for the column DAY: no default is made for it. A table with a
  start-time column only normalizes without error, its text fields are the empty text,
  but the result has no column DAY at all (the day of its row reads as missing, not as
  the empty text), and the grid builder then fails on it.
\<close>

theorem C6_counterexample:
  "load_and_clean_data coerce_none example_only_start_time =
     Inr \<lparr>day_columns = 0,
          records =
            [\<lparr>idx = 0, day = NaN, start_time = ''08:05:00'', subject = Str [],
              teacher = Str [], room = Str [], group_col = Str [],
              intake = Str [], intake_group = Str '' ''\<rparr>]\<rparr>
   \<and> pipeline coerce_none example_only_start_time Room = Inl KeyError"
  by (simp add: pipeline_def load_example_only_start_time final_dfs_def)

text \<open>
  Claim C6, as amended. Normalization fails with the schema error if and only if the
  frame has no column START TIME once the labels are mapped (stripped, upper case), and
  the error lists exactly the labels found; the table with the columns SUBJECT and
  TEACHER only raises it with exactly these two. When START TIME is present, the absence
  of any other required column never makes normalization fail: it succeeds whenever no
  label among START TIME and the text columns is held by two columns. An absent SUBJECT,
  TEACHER, ROOM, GROUP or INTAKE is the empty text in every surviving row whose row
  position is below the number of surviving rows (every row, when none was dropped).
  An absent DAY is not defaulted: the normalized frame has no column DAY.
\<close>

theorem C6_schema_error:
  "((\<exists>found. load_and_clean_data coerce df0 = Inl (MissingStartTime found)) \<longleftrightarrow>
      ''START TIME'' \<notin> set (columns (map_columns df0)))
   \<and> (\<forall>found. load_and_clean_data coerce df0 = Inl (MissingStartTime found) \<longrightarrow>
         found = columns (map_columns df0))
   \<and> load_and_clean_data coerce example_no_start_time = Inl (MissingStartTime [''SUBJECT'', ''TEACHER''])
   \<and> (''START TIME'' \<in> set (columns (map_columns df0))
        \<and> (\<forall>c \<in> set (''START TIME'' # text_cols). count_list (columns (map_columns df0)) c \<le> 1)
       \<longrightarrow> (\<exists>df. load_and_clean_data coerce df0 = Inr df))
   \<and> (\<forall>df r. load_and_clean_data coerce df0 = Inr df \<and> r \<in> set (records df)
                \<and> idx r < length (records df) \<longrightarrow>
         (''SUBJECT'' \<notin> set (columns (map_columns df0)) \<longrightarrow> subject r = Str [])
       \<and> (''TEACHER'' \<notin> set (columns (map_columns df0)) \<longrightarrow> teacher r = Str [])
       \<and> (''ROOM'' \<notin> set (columns (map_columns df0)) \<longrightarrow> room r = Str [])
       \<and> (''GROUP'' \<notin> set (columns (map_columns df0)) \<longrightarrow> group_col r = Str [])
       \<and> (''INTAKE'' \<notin> set (columns (map_columns df0)) \<longrightarrow> intake r = Str []))
   \<and> (\<forall>df. load_and_clean_data coerce df0 = Inr df \<and> ''DAY'' \<notin> set (columns (map_columns df0)) \<longrightarrow>
         day_columns df = 0 \<and> (\<forall>r \<in> set (records df). day r = NaN))"
proof (intro conjI)
  show "(\<exists>found. load_and_clean_data coerce df0 = Inl (MissingStartTime found)) \<longleftrightarrow>
      ''START TIME'' \<notin> set (columns (map_columns df0))"
    by (rule load_schema_error_iff)
  show "\<forall>found. load_and_clean_data coerce df0 = Inl (MissingStartTime found) \<longrightarrow>
         found = columns (map_columns df0)"
    using load_schema_error_columns by blast
  show "load_and_clean_data coerce example_no_start_time = Inl (MissingStartTime [''SUBJECT'', ''TEACHER''])"
    by (rule load_example_no_start_time)
  show "''START TIME'' \<in> set (columns (map_columns df0))
        \<and> (\<forall>c \<in> set (''START TIME'' # text_cols). count_list (columns (map_columns df0)) c \<le> 1)
       \<longrightarrow> (\<exists>df. load_and_clean_data coerce df0 = Inr df)"
  proof
    assume h: "''START TIME'' \<in> set (columns (map_columns df0))
        \<and> (\<forall>c \<in> set (''START TIME'' # text_cols). count_list (columns (map_columns df0)) c \<le> 1)"
    then have "\<not> (\<exists>c \<in> set (''START TIME'' # text_cols). 1 < count_list (columns (map_columns df0)) c)"
      by (meson not_le)
    with load_with_start_time[of df0 coerce] h show "\<exists>df. load_and_clean_data coerce df0 = Inr df"
      by blast
  qed
  show "\<forall>df r. load_and_clean_data coerce df0 = Inr df \<and> r \<in> set (records df)
                \<and> idx r < length (records df) \<longrightarrow>
         (''SUBJECT'' \<notin> set (columns (map_columns df0)) \<longrightarrow> subject r = Str [])
       \<and> (''TEACHER'' \<notin> set (columns (map_columns df0)) \<longrightarrow> teacher r = Str [])
       \<and> (''ROOM'' \<notin> set (columns (map_columns df0)) \<longrightarrow> room r = Str [])
       \<and> (''GROUP'' \<notin> set (columns (map_columns df0)) \<longrightarrow> group_col r = Str [])
       \<and> (''INTAKE'' \<notin> set (columns (map_columns df0)) \<longrightarrow> intake r = Str [])"
  proof (intro allI impI)
    fix df r
    assume h: "load_and_clean_data coerce df0 = Inr df \<and> r \<in> set (records df)
                \<and> idx r < length (records df)"
    then have l: "load_and_clean_data coerce df0 = Inr df" and r: "r \<in> set (records df)"
      and i: "idx r < length (records df)" by simp_all
    note f = record_fields[OF l r]
    show "(''SUBJECT'' \<notin> set (columns (map_columns df0)) \<longrightarrow> subject r = Str [])
       \<and> (''TEACHER'' \<notin> set (columns (map_columns df0)) \<longrightarrow> teacher r = Str [])
       \<and> (''ROOM'' \<notin> set (columns (map_columns df0)) \<longrightarrow> room r = Str [])
       \<and> (''GROUP'' \<notin> set (columns (map_columns df0)) \<longrightarrow> group_col r = Str [])
       \<and> (''INTAKE'' \<notin> set (columns (map_columns df0)) \<longrightarrow> intake r = Str [])"
      using i by (simp add: f(1-5) clean_text_absent)
  qed
  show "\<forall>df. load_and_clean_data coerce df0 = Inr df \<and> ''DAY'' \<notin> set (columns (map_columns df0)) \<longrightarrow>
         day_columns df = 0 \<and> (\<forall>r \<in> set (records df). day r = NaN)"
  proof (intro allI impI conjI ballI)
    fix df
    assume h: "load_and_clean_data coerce df0 = Inr df \<and> ''DAY'' \<notin> set (columns (map_columns df0))"
    then have l: "load_and_clean_data coerce df0 = Inr df"
      and d: "''DAY'' \<notin> set (columns (map_columns df0))" by simp_all
    show "day_columns df = 0" using d by (simp add: load_Inr(2)[OF l])
    fix r assume r: "r \<in> set (records df)"
    show "day r = NaN" using d by (simp add: record_fields(6)[OF l r] cell_at_absent)
  qed
qed

theorem C6_schema_error_witness:
  "''START TIME'' \<in> set (columns (map_columns example_only_start_time))
   \<and> list_all (\<lambda>c. count_list (columns (map_columns example_only_start_time)) c \<le> 1)
        (''START TIME'' # text_cols)
   \<and> (\<exists>df. load_and_clean_data coerce_none example_only_start_time = Inr df)
   \<and> ''START TIME'' \<notin> set (columns (map_columns example_no_start_time))
   \<and> (\<exists>found. load_and_clean_data coerce_none example_no_start_time = Inl (MissingStartTime found))"
proof -
  have h: "''START TIME'' \<in> set (columns (map_columns example_only_start_time))
   \<and> (\<forall>c \<in> set (''START TIME'' # text_cols).
         count_list (columns (map_columns example_only_start_time)) c \<le> 1)"
    by (simp add: example_only_start_time_def map_columns_def text_defs text_cols_def)
  then have h': "list_all (\<lambda>c. count_list (columns (map_columns example_only_start_time)) c \<le> 1)
        (''START TIME'' # text_cols)"
    by (simp add: list_all_iff)
  have g: "''START TIME'' \<notin> set (columns (map_columns example_no_start_time))"
    by (simp add: example_no_start_time_def map_columns_def text_defs)
  from C6_schema_error[of coerce_none example_only_start_time] h
  have a: "\<exists>df. load_and_clean_data coerce_none example_only_start_time = Inr df" by blast
  from C6_schema_error[of coerce_none example_no_start_time] g
  have b: "\<exists>found. load_and_clean_data coerce_none example_no_start_time = Inl (MissingStartTime found)"
    by blast
  from h h' g a b show ?thesis by blast
qed

section \<open>The grouped entries and the order of the day matrices\<close>

lemma apply_join_keys: "apply_join gs = Inr es \<Longrightarrow> map fst es = map fst gs"
  by (induction gs arbitrary: es rule: apply_join.induct) (auto split: sum.splits)

lemma groupby_keys: "map fst (groupby rs) = sort (unique (map fst (keyed_rows rs)))"
  by (simp add: groupby_def comp_def)

lemma grouped_keys:
  assumes "df_grouped rs = Inr grouped"
  shows "map fst grouped = sort (unique (map fst (keyed_rows rs)))"
  using assms apply_join_keys[of "groupby rs" grouped] by (simp add: df_grouped_def groupby_keys)

lemma grouped_sorted: "df_grouped rs = Inr grouped \<Longrightarrow> sorted (map fst grouped)"
  by (simp add: grouped_keys)

lemma grouped_distinct: "df_grouped rs = Inr grouped \<Longrightarrow> distinct (map fst grouped)"
  by (simp add: grouped_keys distinct_unique)

lemma grouped_key_set: "df_grouped rs = Inr grouped \<Longrightarrow> fst ` set grouped = fst ` set (keyed_rows rs)"
proof -
  assume a: "df_grouped rs = Inr grouped"
  have "fst ` set grouped = set (map fst grouped)" by simp
  also have "\<dots> = set (map fst (keyed_rows rs))" by (simp add: grouped_keys[OF a] set_unique)
  finally show ?thesis by simp
qed

lemma e_day_fst: "e_day e = fst (fst e)"
  by (cases e rule: e_day.cases) simp

lemma sorted_map_fst:
  fixes xs :: "('a::linorder \<times> 'b::linorder) list"
  shows "sorted xs \<Longrightarrow> sorted (map fst xs)"
proof (induction xs)
  case Nil
  then show ?case by simp
next
  case (Cons x xs)
  then have "\<forall>y \<in> set xs. x \<le> y" by simp
  then have "\<forall>y \<in> set xs. fst x \<le> fst y"
    by (auto simp: less_eq_prod_def)
  with Cons show ?case by simp
qed

lemma grouped_days_sorted:
  assumes "df_grouped rs = Inr grouped"
  shows "sorted (map e_day grouped)"
proof -
  have "e_day = (\<lambda>e. fst (fst e))" by (rule ext) (rule e_day_fst)
  then have eq: "map e_day grouped = map fst (map fst grouped)" by (simp add: comp_def)
  show ?thesis unfolding eq by (rule sorted_map_fst[OF grouped_sorted[OF assms]])
qed

lemma strict_sorted_unique: "sorted xs \<Longrightarrow> sorted_wrt (<) (unique xs)"
  using sorted_unique[of xs] distinct_unique[of xs] by (simp add: strict_sorted_iff)

lemma sorted_wrt_insort_key_day:
  assumes "sorted_wrt day_before ys" and "\<forall>y \<in> set ys. x < y"
  shows "sorted_wrt day_before (insort_key rank_of x ys)"
  using assms
proof (induction ys)
  case Nil
  then show ?case by simp
next
  case (Cons y ys)
  show ?case
  proof (cases "rank_of x \<le> rank_of y")
    case True
    have "day_before x y" using True Cons.prems(2) by (auto simp: day_before_def)
    moreover have "\<forall>z \<in> set ys. day_before x z"
    proof
      fix z assume z: "z \<in> set ys"
      then have "day_before y z" using Cons.prems(1) by simp
      then have "rank_of y \<le> rank_of z" by (auto simp: day_before_def)
      with True have "rank_of x \<le> rank_of z" by simp
      moreover have "x < z" using z Cons.prems(2) by simp
      ultimately show "day_before x z" by (auto simp: day_before_def)
    qed
    ultimately show ?thesis using True Cons.prems(1) by simp
  next
    case False
    then have yx: "day_before y x" by (auto simp: day_before_def)
    have ih: "sorted_wrt day_before (insort_key rank_of x ys)"
      using Cons by simp
    have "\<forall>z \<in> set (insort_key rank_of x ys). day_before y z"
      using yx Cons.prems(1) by (auto simp: set_insort_key)
    with ih False show ?thesis by simp
  qed
qed

lemma sorted_wrt_sort_key_day:
  "sorted_wrt (<) xs \<Longrightarrow> sorted_wrt day_before (sort_key rank_of xs)"
proof (induction xs)
  case Nil
  then show ?case by simp
next
  case (Cons x xs)
  then have "sorted_wrt day_before (sort_key rank_of xs)" by simp
  moreover have "\<forall>y \<in> set (sort_key rank_of xs). x < y" using Cons.prems by simp
  ultimately show ?case by (simp add: sorted_wrt_insort_key_day)
qed

lemma unique_days_ordered:
  assumes "df_grouped rs = Inr grouped"
  shows "sorted_wrt day_before (unique_days grouped)"
  unfolding unique_days_def
  by (rule sorted_wrt_sort_key_day[OF strict_sorted_unique[OF grouped_days_sorted[OF assms]]])

lemma build_day_label: "(d', m) \<in> set (build_day v grouped d) \<Longrightarrow> d' = d"
  by (auto simp: build_day_def Let_def split: if_splits)

lemma build_day_cases: "build_day v grouped d = [] \<or> (\<exists>m. build_day v grouped d = [(d, m)])"
  by (auto simp: build_day_def Let_def)

lemma emitted_filter:
  "map fst (concat (map (build_day v grouped) ds)) = filter (\<lambda>d. build_day v grouped d \<noteq> []) ds"
proof (induction ds)
  case Nil
  then show ?case by simp
next
  case (Cons d ds)
  from build_day_cases[of v grouped d] Cons show ?case by auto
qed

lemma generate_Inr:
  assumes "final_dfs df v = Inr out"
  shows "\<exists>grouped. df_grouped (records df) = Inr grouped
           \<and> out = concat (map (build_day v grouped) (unique_days grouped))"
  using assms by (auto simp: final_dfs_def split: if_splits sum.splits)

lemma emitted_days_ordered:
  assumes "final_dfs df v = Inr out"
  shows "sorted_wrt day_before (map fst out)"
proof -
  from generate_Inr[OF assms] obtain grouped where g: "df_grouped (records df) = Inr grouped"
    and out: "out = concat (map (build_day v grouped) (unique_days grouped))" by blast
  have "map fst out = filter (\<lambda>d. build_day v grouped d \<noteq> []) (unique_days grouped)"
    by (simp add: out emitted_filter)
  then show ?thesis using unique_days_ordered[OF g] by (simp add: sorted_wrt_filter)
qed

lemma day_before_irrefl: "\<not> day_before a a"
  by (simp add: day_before_def)

lemma emitted_days_distinct:
  assumes "final_dfs df v = Inr out"
  shows "distinct (map fst out)"
proof -
  have "\<And>xs. sorted_wrt day_before xs \<Longrightarrow> distinct xs"
  proof -
    fix xs show "sorted_wrt day_before xs \<Longrightarrow> distinct xs"
      by (induction xs) (auto simp: day_before_irrefl)
  qed
  then show ?thesis using emitted_days_ordered[OF assms] by blast
qed

section \<open>The examples of the day order\<close>

lemma load_example_three_days:
  "load_and_clean_data coerce example_three_days =
     Inr \<lparr>day_columns = 1,
          records =
            [\<lparr>idx = 0, day = Str ''FRI'', start_time = ''08:05:00'', subject = Str [],
              teacher = Str [], room = Str ''R1'', group_col = Str [],
              intake = Str [], intake_group = Str '' ''\<rparr>,
             \<lparr>idx = 1, day = Str ''Monday'', start_time = ''08:05:00'', subject = Str [],
              teacher = Str [], room = Str ''R1'', group_col = Str [],
              intake = Str [], intake_group = Str '' ''\<rparr>,
             \<lparr>idx = 2, day = Str ''wed'', start_time = ''08:05:00'', subject = Str [],
              teacher = Str [], room = Str ''R1'', group_col = Str [],
              intake = Str [], intake_group = Str '' ''\<rparr>]\<rparr>"
  by (simp add: example_three_days_def load_defs upt_3)

lemma load_example_unknown_days:
  "load_and_clean_data coerce example_unknown_days =
     Inr \<lparr>day_columns = 1,
          records =
            [\<lparr>idx = 0, day = Str ''Zed'', start_time = ''08:05:00'', subject = Str [],
              teacher = Str [], room = Str ''R1'', group_col = Str [],
              intake = Str [], intake_group = Str '' ''\<rparr>,
             \<lparr>idx = 1, day = Str ''Abc'', start_time = ''08:05:00'', subject = Str [],
              teacher = Str [], room = Str ''R1'', group_col = Str [],
              intake = Str [], intake_group = Str '' ''\<rparr>]\<rparr>"
  by (simp add: example_unknown_days_def load_defs upt_2)

lemma days_example_three_days:
  "emitted_days (pipeline coerce example_three_days Room) = Inr [''Monday'', ''wed'', ''FRI'']"
  by (simp add: emitted_days_def pipeline_def load_example_three_days gen_defs time_slots_eq)

lemma days_example_unknown_days:
  "emitted_days (pipeline coerce example_unknown_days Room) = Inr [''Abc'', ''Zed'']"
  by (simp add: emitted_days_def pipeline_def load_example_unknown_days gen_defs time_slots_eq)

section \<open>The order of the day matrices\<close>

lemma rank_of_cong: "upper (strip a) = upper (strip b) \<Longrightarrow> rank_of a = rank_of b"
  by (simp add: rank_of_def)

lemma day_rank_bound: "(x, r) \<in> set day_rank \<Longrightarrow> r \<le> 6"
  by (auto simp: day_rank_def)

lemma rank_of_known: "upper (strip d) \<in> fst ` set day_rank \<Longrightarrow> rank_of d \<le> 6"
proof -
  assume "upper (strip d) \<in> fst ` set day_rank"
  then obtain r where r: "map_of day_rank (upper (strip d)) = Some r"
    by (metis map_of_eq_None_iff not_Some_eq)
  then have "(upper (strip d), r) \<in> set day_rank" by (rule map_of_SomeD)
  then have "r \<le> 6" by (rule day_rank_bound)
  with r show ?thesis by (simp add: rank_of_def)
qed

lemma rank_of_unknown: "upper (strip d) \<notin> fst ` set day_rank \<Longrightarrow> rank_of d = 99"
proof -
  assume "upper (strip d) \<notin> fst ` set day_rank"
  then have "map_of day_rank (upper (strip d)) = None" by (simp add: map_of_eq_None_iff)
  then show ?thesis by (simp add: rank_of_def)
qed

lemma rank_of_full_names:
  "map rank_of [''Monday'', ''Tuesday'', ''Wednesday'', ''Thursday'', ''Friday'', ''Saturday'', ''Sunday'']
     = [0, 1, 2, 3, 4, 5, 6]"
  by (simp add: rank_of_def day_rank_def text_defs)

lemma rank_of_short_names:
  "map rank_of [''Mon'', ''Tue'', ''Wed'', ''Thu'', ''Fri'', ''Sat'', ''Sun''] = [0, 1, 2, 3, 4, 5, 6]"
  by (simp add: rank_of_def day_rank_def text_defs)

lemma emitted_ranks_sorted:
  assumes "final_dfs df v = Inr out"
  shows "sorted (map rank_of (map fst out))"
proof -
  have "sorted_wrt (\<lambda>a b. rank_of a \<le> rank_of b) (map fst out)"
    by (rule sorted_wrt_mono_rel[OF _ emitted_days_ordered[OF assms]]) (auto simp: day_before_def)
  then show ?thesis unfolding sorted_map[of rank_of "map fst out"] .
qed

text \<open>
  Claim C5 fails as stated: labels that are no weekday names do not keep the order in
  which the input has them. The input of \<open>example_unknown_days\<close> has the day Zed before
  the day Abc, neither is a weekday name, and the matrix of Abc comes before the matrix
  of Zed.
\<close>

theorem C5_counterexample:
  "columns example_unknown_days = [''DAY'', ''START TIME'', ''ROOM'']
   \<and> map hd (rows example_unknown_days) = [Str ''Zed'', Str ''Abc'']
   \<and> rank_of ''Zed'' = 99 \<and> rank_of ''Abc'' = 99
   \<and> emitted_days (pipeline coerce_none example_unknown_days Room) = Inr [''Abc'', ''Zed'']"
  by (simp add: days_example_unknown_days)
     (simp add: example_unknown_days_def rank_of_def day_rank_def text_defs)

text \<open>
  Claim C5, as amended. The day matrices come in the order of the weekday rank of their day
  labels. The rank is 0 for Monday up to 6 for Sunday, for the short and the full names
  alike, and depends on the label only through its stripped upper-case form; a label that
  is no weekday name has the rank 99 and so comes after every weekday. Labels of one rank,
  the unknown labels in particular, come in ascending code-point order of the labels
  (the order of the grouped table), not in the order of the input. The days FRI, Monday,
  wed of the input give the matrices of Monday, wed, FRI, in this order.
\<close>

theorem C5_day_order:
  assumes "final_dfs df v = Inr out"
  shows "sorted (map rank_of (map fst out))
       \<and> sorted_wrt (\<lambda>a b. rank_of a < rank_of b \<or> (rank_of a = rank_of b \<and> a < b)) (map fst out)
       \<and> (\<forall>a b. upper (strip a) = upper (strip b) \<longrightarrow> rank_of a = rank_of b)
       \<and> map rank_of [''Monday'', ''Tuesday'', ''Wednesday'', ''Thursday'', ''Friday'', ''Saturday'', ''Sunday'']
           = [0, 1, 2, 3, 4, 5, 6]
       \<and> map rank_of [''Mon'', ''Tue'', ''Wed'', ''Thu'', ''Fri'', ''Sat'', ''Sun''] = [0, 1, 2, 3, 4, 5, 6]
       \<and> (\<forall>d. upper (strip d) \<in> fst ` set day_rank \<longrightarrow> rank_of d \<le> 6)
       \<and> (\<forall>d. upper (strip d) \<notin> fst ` set day_rank \<longrightarrow> rank_of d = 99)
       \<and> emitted_days (pipeline coerce example_three_days Room) = Inr [''Monday'', ''wed'', ''FRI'']"
proof (intro conjI allI impI)
  show "sorted (map rank_of (map fst out))" by (rule emitted_ranks_sorted[OF assms])
  show "sorted_wrt (\<lambda>a b. rank_of a < rank_of b \<or> (rank_of a = rank_of b \<and> a < b)) (map fst out)"
    using emitted_days_ordered[OF assms] by (simp add: day_before_def[abs_def])
  show "map rank_of [''Monday'', ''Tuesday'', ''Wednesday'', ''Thursday'', ''Friday'', ''Saturday'', ''Sunday'']
           = [0, 1, 2, 3, 4, 5, 6]" by (rule rank_of_full_names)
  show "map rank_of [''Mon'', ''Tue'', ''Wed'', ''Thu'', ''Fri'', ''Sat'', ''Sun''] = [0, 1, 2, 3, 4, 5, 6]"
    by (rule rank_of_short_names)
  show "emitted_days (pipeline coerce example_three_days Room) = Inr [''Monday'', ''wed'', ''FRI'']"
    by (rule days_example_three_days)
next
  fix a b :: string assume "upper (strip a) = upper (strip b)"
  then show "rank_of a = rank_of b" by (rule rank_of_cong)
next
  fix d assume "upper (strip d) \<in> fst ` set day_rank"
  then show "rank_of d \<le> 6" by (rule rank_of_known)
next
  fix d assume "upper (strip d) \<notin> fst ` set day_rank"
  then show "rank_of d = 99" by (rule rank_of_unknown)
qed

lemma generate_example_three_days:
  "final_dfs example_three_days_clean Room = Inr example_three_days_sheets"
  by (simp add: example_three_days_clean_def example_three_days_sheets_def example_sheet_R1_def
      gen_defs time_slots_eq eval_nat_numeral)

theorem C5_day_order_witness:
  "final_dfs example_three_days_clean Room = Inr example_three_days_sheets
   \<and> map fst example_three_days_sheets = [''Monday'', ''wed'', ''FRI'']
   \<and> sorted (map rank_of (map fst example_three_days_sheets))"
proof -
  have h: "final_dfs example_three_days_clean Room = Inr example_three_days_sheets"
    by (rule generate_example_three_days)
  from C5_day_order[OF h] have "sorted (map rank_of (map fst example_three_days_sheets))" by blast
  with h show ?thesis by (simp add: example_three_days_sheets_def)
qed

section \<open>The matrix of a day\<close>

lemma key_of_Some:
  "key_of r = Some (d, st, su, te, ro) \<longleftrightarrow>
     day r = Str d \<and> st = start_time r \<and> subject r = Str su \<and> teacher r = Str te \<and> room r = Str ro"
  by (auto simp: key_of_def split: cell.splits)

lemma keyed_rows_keys: "fst ` set (keyed_rows rs) = {k. \<exists>r \<in> set rs. key_of r = Some k}"
  by (force simp: keyed_rows_def List.map_filter_def image_iff)

lemma grouped_entry_record:
  assumes "df_grouped rs = Inr grouped" and "e \<in> set grouped"
  shows "\<exists>r \<in> set rs. key_of r = Some (fst e)"
proof -
  from assms(2) have "fst e \<in> fst ` set grouped" by simp
  then have "fst e \<in> {k. \<exists>r \<in> set rs. key_of r = Some k}"
    by (simp only: grouped_key_set[OF assms(1)] keyed_rows_keys)
  then show ?thesis by simp
qed

lemma record_grouped_entry:
  assumes "df_grouped rs = Inr grouped" and "r \<in> set rs" and "key_of r = Some k"
  shows "\<exists>e \<in> set grouped. fst e = k"
proof -
  have "k \<in> {k. \<exists>r \<in> set rs. key_of r = Some k}" using assms(2,3) by blast
  then have "k \<in> fst ` set grouped"
    by (simp only: grouped_key_set[OF assms(1)] keyed_rows_keys)
  then show ?thesis by auto
qed

lemma writes_column:
  assumes "(r, c) \<in> set (writes v index (pc # slots) e)"
  shows "c = e_start e \<or> c \<in> set slots"
  using assms by (auto simp: writes_def split: if_splits)

lemma first_column_kept:
  assumes "\<forall>e \<in> set es. e_start e \<noteq> primary_col v"
  shows "foldl (fill_row v index (primary_col v # generate_time_slots)) (init_matrix v) es (r, primary_col v) = Some r"
proof -
  have "contributions v index (primary_col v # generate_time_slots) (r, primary_col v) es = []"
  proof -
    have "\<And>e. e \<in> set es \<Longrightarrow> (r, primary_col v) \<notin> set (writes v index (primary_col v # generate_time_slots) e)"
    proof
      fix e assume e: "e \<in> set es"
        and w: "(r, primary_col v) \<in> set (writes v index (primary_col v # generate_time_slots) e)"
      from writes_column[OF w] have "primary_col v = e_start e \<or> primary_col v \<in> set generate_time_slots" .
      with assms e primary_col_notin_slots[of v] show False by auto
    qed
    then show ?thesis by (auto simp: contributions_def filter_empty_conv)
  qed
  then show ?thesis by (simp add: foldl_fill_at init_matrix_def)
qed

lemma unique_primary_props:
  "sorted (unique_primary v day_data)"
  "distinct (unique_primary v day_data)"
  "set (unique_primary v day_data) = primary_val v ` set day_data - {''nan'', []}"
  by (auto simp: unique_primary_def distinct_unique set_unique)

lemma build_day_result:
  assumes "(d, m) \<in> set (build_day v grouped d)"
  shows "dm_columns m = primary_col v # generate_time_slots"
    and "dm_rows m =
           map (\<lambda>r. map (\<lambda>c. foldl (fill_row v (unique_primary v (filter (\<lambda>e. e_day e = d) grouped))
                                          (primary_col v # generate_time_slots))
                                  (init_matrix v) (filter (\<lambda>e. e_day e = d) grouped) (r, c))
                        (primary_col v # generate_time_slots))
               (unique_primary v (filter (\<lambda>e. e_day e = d) grouped))"
    and "unique_primary v (filter (\<lambda>e. e_day e = d) grouped) \<noteq> []"
  using assms by (auto simp: build_day_def Let_def split: if_splits)

lemma generate_member:
  assumes "final_dfs df v = Inr out" and "(d, m) \<in> set out"
  shows "\<exists>grouped. df_grouped (records df) = Inr grouped \<and> (d, m) \<in> set (build_day v grouped d)"
proof -
  from generate_Inr[OF assms(1)] obtain grouped where g: "df_grouped (records df) = Inr grouped"
    and out: "out = concat (map (build_day v grouped) (unique_days grouped))" by blast
  from assms(2) out obtain d' where "(d, m) \<in> set (build_day v grouped d')" by auto
  with build_day_label[of d m v grouped d'] g show ?thesis by auto
qed

lemma entry_of_record:
  assumes "key_of r = Some (fst e)"
  shows "day r = Str (e_day e)" and "start_time r = e_start e"
    and "primary_of_record v r = Str (primary_val v e)"
proof -
  obtain d st su te ro ig where e: "e = ((d, st, su, te, ro), ig)"
    by (cases e rule: e_day.cases) auto
  from assms have k: "day r = Str d \<and> st = start_time r \<and> subject r = Str su \<and> teacher r = Str te \<and> room r = Str ro"
    by (simp add: e key_of_Some)
  show "day r = Str (e_day e)" using k by (simp add: e)
  show "start_time r = e_start e" using k by (simp add: e)
  show "primary_of_record v r = Str (primary_val v e)"
    using k by (cases v) (simp_all add: e primary_of_record_def primary_val_def)
qed

lemma day_index_set:
  assumes g: "df_grouped rs = Inr grouped"
  shows "set (unique_primary v (filter (\<lambda>e. e_day e = d) grouped)) = day_primary_values v rs d"
    (is "?L = ?R")
proof (rule set_eqI)
  fix p
  show "p \<in> ?L \<longleftrightarrow> p \<in> ?R"
  proof
    assume "p \<in> ?L"
    then obtain e where e: "e \<in> set grouped" "e_day e = d" "p = primary_val v e"
      and p: "p \<noteq> ''nan''" "p \<noteq> []"
      by (auto simp: unique_primary_props(3))
    from grouped_entry_record[OF g e(1)] obtain r where r: "r \<in> set rs" "key_of r = Some (fst e)"
      by blast
    have "key_of r \<noteq> None" using r(2) by simp
    moreover have "day r = Str d" using entry_of_record(1)[OF r(2)] e(2) by simp
    moreover have "primary_of_record v r = Str p" using entry_of_record(3)[OF r(2), of v] e(3) by simp
    ultimately show "p \<in> ?R" using r(1) p unfolding day_primary_values_def by blast
  next
    assume "p \<in> ?R"
    then obtain r where r: "r \<in> set rs" "key_of r \<noteq> None" "day r = Str d"
      "primary_of_record v r = Str p" and p: "p \<noteq> []" "p \<noteq> ''nan''"
      by (auto simp: day_primary_values_def)
    from r(2) obtain k where k: "key_of r = Some k" by auto
    from record_grouped_entry[OF g r(1) k] obtain e where e: "e \<in> set grouped" "fst e = k" by blast
    from k e(2) have ke: "key_of r = Some (fst e)" by simp
    from entry_of_record(1)[OF ke] entry_of_record(3)[OF ke, of v] r
    have "e_day e = d" "primary_val v e = p" by auto
    with e(1) have "e \<in> set (filter (\<lambda>e. e_day e = d) grouped)" "primary_val v e = p" by simp_all
    then have "p \<in> primary_val v ` set (filter (\<lambda>e. e_day e = d) grouped)" by (metis imageI)
    with p show "p \<in> ?L" unfolding unique_primary_props(3) by blast
  qed
qed

lemma pipeline_entry_start:
  assumes load: "load_and_clean_data coerce df0 = Inr df"
    and g: "df_grouped (records df) = Inr grouped" and e: "e \<in> set grouped"
  shows "e_start e \<noteq> primary_col v"
proof -
  from grouped_entry_record[OF g e] obtain r where r: "r \<in> set (records df)" "key_of r = Some (fst e)"
    by blast
  from record_start_time[OF load r(1)] obtain t where "start_time r = strftime_HMS t" by blast
  with entry_of_record(2)[OF r(2)] show ?thesis by (metis strftime_not_primary)
qed

lemma sheet_shape:
  assumes load: "load_and_clean_data coerce df0 = Inr df"
    and gen: "final_dfs df v = Inr out"
    and mem: "(d, m) \<in> set out"
  shows "dm_columns m = primary_col v # generate_time_slots
       \<and> length (dm_columns m) = length generate_time_slots + 1
       \<and> (\<forall>row \<in> set (dm_rows m). length row = length generate_time_slots + 1)
       \<and> (\<exists>index. map hd (dm_rows m) = map Some index \<and> sorted index \<and> distinct index
                   \<and> set index = day_primary_values v (records df) d)
       \<and> dm_rows m \<noteq> []
       \<and> day_primary_values v (records df) d \<noteq> {}"
proof -
  from generate_member[OF gen mem] obtain grouped where g: "df_grouped (records df) = Inr grouped"
    and b: "(d, m) \<in> set (build_day v grouped d)" by blast
  let ?cols = "primary_col v # generate_time_slots"
  let ?data = "filter (\<lambda>e. e_day e = d) grouped"
  let ?index = "unique_primary v ?data"
  let ?M = "foldl (fill_row v ?index ?cols) (init_matrix v) ?data"
  note res = build_day_result[OF b]
  have cols: "dm_columns m = ?cols" by (rule res(1))
  have rows: "dm_rows m = map (\<lambda>r. map (\<lambda>c. ?M (r, c)) ?cols) ?index" by (rule res(2))
  have ne: "?index \<noteq> []" by (rule res(3))
  have starts: "\<forall>e \<in> set ?data. e_start e \<noteq> primary_col v"
    using pipeline_entry_start[OF load g] by auto
  have hd_rows: "map hd (dm_rows m) = map Some ?index"
    by (simp add: rows comp_def first_column_kept[OF starts])
  have idx: "set ?index = day_primary_values v (records df) d" by (rule day_index_set[OF g])
  have "day_primary_values v (records df) d \<noteq> {}" using ne idx by (metis set_empty)
  moreover have "\<exists>index. map hd (dm_rows m) = map Some index \<and> sorted index \<and> distinct index
                   \<and> set index = day_primary_values v (records df) d"
    using hd_rows idx unique_primary_props(1,2)[of v ?data] by blast
  moreover have "\<forall>row \<in> set (dm_rows m). length row = length generate_time_slots + 1"
    by (auto simp: rows)
  moreover have "dm_rows m \<noteq> []" using ne by (simp add: rows)
  ultimately show ?thesis using cols by simp
qed

text \<open>
  Claim C7. Every day matrix that the pipeline emits has exactly one column more than the slot
  axis has slots: the primary column of the view followed by the whole axis in its order,
  whatever start times occur on that day, and every row has one cell per column. The
  first cells of its rows are the primary values of the day, in ascending order and
  without repetition: exactly the values of the primary column among the rows of the day
  that enter the grouping, without the empty text and without the text nan. This row set
  is never empty: a day for which it is empty has no matrix.
\<close>

theorem C7_matrix_shape:
  assumes load: "load_and_clean_data coerce df0 = Inr df"
    and gen: "final_dfs df v = Inr out"
    and mem: "(d, m) \<in> set out"
  shows "dm_columns m = primary_col v # generate_time_slots
       \<and> length (dm_columns m) = length generate_time_slots + 1
       \<and> (\<forall>row \<in> set (dm_rows m). length row = length generate_time_slots + 1)
       \<and> (\<exists>index. map hd (dm_rows m) = map Some index \<and> sorted index \<and> distinct index
                   \<and> set index = day_primary_values v (records df) d)
       \<and> dm_rows m \<noteq> []
       \<and> day_primary_values v (records df) d \<noteq> {}"
  by (rule sheet_shape[OF load gen mem])

theorem C7_matrix_shape_witness:
  "load_and_clean_data coerce_none example_three_days = Inr example_three_days_clean
   \<and> final_dfs example_three_days_clean Room = Inr example_three_days_sheets
   \<and> (''Monday'', example_sheet_R1) \<in> set example_three_days_sheets
   \<and> dm_columns example_sheet_R1 = primary_col Room # generate_time_slots
   \<and> length (dm_columns example_sheet_R1) = length generate_time_slots + 1
   \<and> list_all (\<lambda>row. length row = length generate_time_slots + 1) (dm_rows example_sheet_R1)
   \<and> day_primary_values Room (records example_three_days_clean) ''Monday'' \<noteq> {}"
proof -
  have h1: "load_and_clean_data coerce_none example_three_days = Inr example_three_days_clean"
    by (simp add: load_example_three_days example_three_days_clean_def)
  have h2: "final_dfs example_three_days_clean Room = Inr example_three_days_sheets"
    by (rule generate_example_three_days)
  have h3: "(''Monday'', example_sheet_R1) \<in> set example_three_days_sheets"
    by (simp add: example_three_days_sheets_def)
  note th = C7_matrix_shape[OF h1 h2 h3]
  from th have "list_all (\<lambda>row. length row = length generate_time_slots + 1) (dm_rows example_sheet_R1)"
    by (simp add: list_all_iff)
  with th h1 h2 h3 show ?thesis by blast
qed

section \<open>Missing cells\<close>

lemma load_example_missing_cells:
  "load_and_clean_data coerce example_missing_cells = Inr example_missing_cells_clean"
  by (simp add: example_missing_cells_def example_missing_cells_clean_def load_defs upt_2)

lemma generate_example_missing_cells:
  "final_dfs example_missing_cells_clean Room = Inr example_missing_cells_sheets"
  by (simp add: example_missing_cells_clean_def example_missing_cells_sheets_def
      gen_defs time_slots_eq eval_nat_numeral)

lemma strip_nan: "strip ''nan'' = ''nan''"
  by (simp add: text_defs)

lemma clean_text_missing:
  "c \<in> set cols \<Longrightarrow> cell_at cols row c = NaN \<Longrightarrow> clean_text cols n i row c = Str ''nan''"
  by (simp add: clean_text_def strip_nan)

lemma nan_not_a_row:
  assumes load: "load_and_clean_data coerce df0 = Inr df"
    and gen: "final_dfs df v = Inr out"
    and mem: "(d, m) \<in> set out"
  shows "Some ''nan'' \<notin> set (map hd (dm_rows m))"
proof -
  from sheet_shape[OF load gen mem] obtain index where
    i: "map hd (dm_rows m) = map Some index" "set index = day_primary_values v (records df) d"
    by blast
  have "''nan'' \<notin> day_primary_values v (records df) d" by (simp add: day_primary_values_def)
  with i show ?thesis by auto
qed

text \<open>
  Claim C9. In a text column that the input has, a missing cell becomes the text nan
  (not the empty text) once the column is coerced to text and stripped. The derived
  INTAKE_GROUP of a row that lacks both INTAKE and GROUP is then the text nan nan, and
  this text appears as it is in the cells of the grid: in the example, the row without
  GROUP and INTAKE fills its cells with A, Math, nan nan. A row whose primary cell is
  missing has the primary value nan, the value that the grid builder keeps out of the
  row set: no day matrix has a row labelled nan, and in the example the row without ROOM is
  placed nowhere.
\<close>

theorem C9_missing_cells:
  assumes load: "load_and_clean_data coerce df0 = Inr df" and r: "r \<in> set (records df)"
  shows "(\<forall>c. c \<in> set (columns (map_columns df0))
              \<and> cell_at (columns (map_columns df0)) (rows (map_columns df0) ! idx r) c = NaN \<longrightarrow>
            (c = ''SUBJECT'' \<longrightarrow> subject r = Str ''nan'')
          \<and> (c = ''TEACHER'' \<longrightarrow> teacher r = Str ''nan'')
          \<and> (c = ''ROOM'' \<longrightarrow> room r = Str ''nan'')
          \<and> (c = ''GROUP'' \<longrightarrow> group_col r = Str ''nan'')
          \<and> (c = ''INTAKE'' \<longrightarrow> intake r = Str ''nan''))
       \<and> (''INTAKE'' \<in> set (columns (map_columns df0)) \<and> ''GROUP'' \<in> set (columns (map_columns df0))
            \<and> cell_at (columns (map_columns df0)) (rows (map_columns df0) ! idx r) ''INTAKE'' = NaN
            \<and> cell_at (columns (map_columns df0)) (rows (map_columns df0) ! idx r) ''GROUP'' = NaN
          \<longrightarrow> intake_group r = Str ''nan nan'')
       \<and> (\<forall>v out d m. final_dfs df v = Inr out \<and> (d, m) \<in> set out \<longrightarrow>
            Some ''nan'' \<notin> set (map hd (dm_rows m)))
       \<and> pipeline coerce example_missing_cells Room = Inr example_missing_cells_sheets"
proof (intro conjI allI impI)
  note f = record_fields[OF load r]
  fix c
  assume h: "c \<in> set (columns (map_columns df0))
              \<and> cell_at (columns (map_columns df0)) (rows (map_columns df0) ! idx r) c = NaN"
  { assume "c = ''SUBJECT''" with h show "subject r = Str ''nan''" by (simp add: f(1) clean_text_missing) }
  { assume "c = ''TEACHER''" with h show "teacher r = Str ''nan''" by (simp add: f(2) clean_text_missing) }
  { assume "c = ''ROOM''" with h show "room r = Str ''nan''" by (simp add: f(3) clean_text_missing) }
  { assume "c = ''GROUP''" with h show "group_col r = Str ''nan''" by (simp add: f(4) clean_text_missing) }
  { assume "c = ''INTAKE''" with h show "intake r = Str ''nan''" by (simp add: f(5) clean_text_missing) }
next
  note f = record_fields[OF load r]
  assume h: "''INTAKE'' \<in> set (columns (map_columns df0)) \<and> ''GROUP'' \<in> set (columns (map_columns df0))
            \<and> cell_at (columns (map_columns df0)) (rows (map_columns df0) ! idx r) ''INTAKE'' = NaN
            \<and> cell_at (columns (map_columns df0)) (rows (map_columns df0) ! idx r) ''GROUP'' = NaN"
  then have "intake r = Str ''nan''" "group_col r = Str ''nan''"
    by (simp_all add: f(4,5) clean_text_missing)
  then show "intake_group r = Str ''nan nan''" by (simp add: f(7))
next
  fix v out d m
  assume "final_dfs df v = Inr out \<and> (d, m) \<in> set out"
  then show "Some ''nan'' \<notin> set (map hd (dm_rows m))"
    using nan_not_a_row[OF load] by blast
next
  show "pipeline coerce example_missing_cells Room = Inr example_missing_cells_sheets"
    by (simp add: pipeline_def load_example_missing_cells generate_example_missing_cells)
qed

theorem C9_missing_cells_witness:
  "load_and_clean_data coerce_none example_missing_cells = Inr example_missing_cells_clean
   \<and> hd (records example_missing_cells_clean) \<in> set (records example_missing_cells_clean)
   \<and> ''INTAKE'' \<in> set (columns (map_columns example_missing_cells))
   \<and> ''GROUP'' \<in> set (columns (map_columns example_missing_cells))
   \<and> cell_at (columns (map_columns example_missing_cells))
        (rows (map_columns example_missing_cells) ! idx (hd (records example_missing_cells_clean)))
        ''INTAKE'' = NaN
   \<and> cell_at (columns (map_columns example_missing_cells))
        (rows (map_columns example_missing_cells) ! idx (hd (records example_missing_cells_clean)))
        ''GROUP'' = NaN
   \<and> intake_group (hd (records example_missing_cells_clean)) = Str ''nan nan''
   \<and> final_dfs example_missing_cells_clean Room = Inr example_missing_cells_sheets
   \<and> Some ''nan'' \<notin> set (map hd (dm_rows (snd (hd example_missing_cells_sheets))))"
proof -
  have h1: "load_and_clean_data coerce_none example_missing_cells = Inr example_missing_cells_clean"
    by (rule load_example_missing_cells)
  have h2: "hd (records example_missing_cells_clean) \<in> set (records example_missing_cells_clean)"
    by (simp add: example_missing_cells_clean_def)
  have h3: "''INTAKE'' \<in> set (columns (map_columns example_missing_cells))
   \<and> ''GROUP'' \<in> set (columns (map_columns example_missing_cells))
   \<and> cell_at (columns (map_columns example_missing_cells))
        (rows (map_columns example_missing_cells) ! idx (hd (records example_missing_cells_clean)))
        ''INTAKE'' = NaN
   \<and> cell_at (columns (map_columns example_missing_cells))
        (rows (map_columns example_missing_cells) ! idx (hd (records example_missing_cells_clean)))
        ''GROUP'' = NaN"
    by (simp add: example_missing_cells_def example_missing_cells_clean_def map_columns_def
        text_defs cell_at_def)
  have h4: "final_dfs example_missing_cells_clean Room = Inr example_missing_cells_sheets"
    by (rule generate_example_missing_cells)
  have h5: "(''Mon'', snd (hd example_missing_cells_sheets)) \<in> set example_missing_cells_sheets"
    by (simp add: example_missing_cells_sheets_def)
  note th = C9_missing_cells[OF h1 h2]
  from th h3 have a: "intake_group (hd (records example_missing_cells_clean)) = Str ''nan nan''"
    by blast
  from th h4 h5 have b: "Some ''nan'' \<notin> set (map hd (dm_rows (snd (hd example_missing_cells_sheets))))"
    by blast
  from h1 h2 h3 h4 a b show ?thesis by blast
qed

section \<open>Day labels as grouping keys\<close>

lemma load_example_case_days:
  "load_and_clean_data coerce example_case_days = Inr example_case_days_clean"
  by (simp add: example_case_days_def example_case_days_clean_def load_defs upt_2)

lemma generate_example_case_days:
  "final_dfs example_case_days_clean Room = Inr example_case_days_sheets"
  by (simp add: example_case_days_clean_def example_case_days_sheets_def example_sheet_R1_def
      example_sheet_R2_def gen_defs time_slots_eq eval_nat_numeral)

lemma days_example_case_days:
  "emitted_days (pipeline coerce example_case_days Room) = Inr [''MON'', ''Mon'']"
  by (simp add: emitted_days_def pipeline_def load_example_case_days generate_example_case_days
      example_case_days_sheets_def)

lemma keys_of_different_days:
  assumes "key_of r1 = Some k1" and "key_of r2 = Some k2" and "day r1 \<noteq> day r2"
  shows "k1 \<noteq> k2"
proof
  assume eq: "k1 = k2"
  obtain d st su te ro where k: "k1 = (d, st, su, te, ro)" by (cases k1) auto
  from assms(1) k have "day r1 = Str d" by (simp add: key_of_Some)
  moreover from assms(2) k eq have "day r2 = Str d" by (simp add: key_of_Some)
  ultimately show False using assms(3) by simp
qed

lemma sheet_of_own_entries:
  assumes gen: "final_dfs df v = Inr out" and mem: "(d, m) \<in> set out"
  shows "\<exists>grouped. df_grouped (records df) = Inr grouped
           \<and> build_day v grouped d = [(d, m)]
           \<and> dm_rows m =
               map (\<lambda>r. map (\<lambda>c. foldl (fill_row v (unique_primary v (filter (\<lambda>e. e_day e = d) grouped))
                                              (primary_col v # generate_time_slots))
                                      (init_matrix v) (filter (\<lambda>e. e_day e = d) grouped) (r, c))
                            (primary_col v # generate_time_slots))
                   (unique_primary v (filter (\<lambda>e. e_day e = d) grouped))"
proof -
  from generate_member[OF gen mem] obtain grouped where g: "df_grouped (records df) = Inr grouped"
    and b: "(d, m) \<in> set (build_day v grouped d)" by blast
  from b build_day_cases[of v grouped d] have "build_day v grouped d = [(d, m)]" by auto
  with g build_day_result(2)[OF b] show ?thesis by blast
qed

lemma write_days_sheets:
  "write_days v grouped wb labels = write_sheets wb (concat (map (build_day v grouped) labels))"
proof (induction labels arbitrary: wb)
  case Nil
  show ?case by simp
next
  case (Cons label labels)
  from build_day_cases[of v grouped label] show ?case
  proof
    assume "build_day v grouped label = []"
    then show ?thesis by (simp add: Cons)
  next
    assume "\<exists>m. build_day v grouped label = [(label, m)]"
    then obtain m where "build_day v grouped label = [(label, m)]" by blast
    then show ?thesis by (simp add: Cons split: sum.splits)
  qed
qed

lemma run_writes_final_dfs:
  assumes "generate_schedule_excel df v = Inr wb"
  shows "\<exists>out. final_dfs df v = Inr out \<and> write_sheets [] out = Inr wb"
  using assms
  by (auto simp: generate_schedule_excel_def final_dfs_def write_days_sheets
      split: if_splits sum.splits)

lemma run_example_case_days:
  "generate_schedule_excel example_case_days_clean Room = Inr [(''MON'', example_sheet_R1)]"
proof -
  from generate_example_case_days obtain grouped where
    g: "df_grouped (records example_case_days_clean) = Inr grouped"
    and out: "example_case_days_sheets = concat (map (build_day Room grouped) (unique_days grouped))"
    using generate_Inr by blast
  have d: "day_columns example_case_days_clean = 1" by (simp add: example_case_days_clean_def)
  have w: "write_sheets [] example_case_days_sheets = Inr [(''MON'', example_sheet_R1)]"
    by (simp add: example_case_days_sheets_def example_sheet_R1_def example_sheet_R2_def
        to_excel_def sheet_name_clean_def invalid_title_def text_defs overlay_def overlay_row_def)
  show ?thesis
    by (simp add: generate_schedule_excel_def d g write_days_sheets out[symmetric] w)
qed

text \<open>
  Claim C10 fails as stated. The input of \<open>example_case_days\<close> has the day Mon (room R1)
  before the day MON (room R2). The two labels are distinct days and a day matrix is
  built for each, but the matrix of MON is built and written first and the matrix of Mon
  second, against the order of the input; and both are written under the one sheet name
  MON, so that the workbook ends with a single sheet, which holds the matrix of Mon.
\<close>

theorem C10_counterexample:
  "columns example_case_days = [''DAY'', ''START TIME'', ''ROOM'']
   \<and> map hd (rows example_case_days) = [Str ''Mon'', Str ''MON'']
   \<and> pipeline coerce_none example_case_days Room
     = Inr [(''MON'', example_sheet_R2), (''Mon'', example_sheet_R1)]
   \<and> process coerce_none example_case_days Room = Inr [(''MON'', example_sheet_R1)]"
  by (simp add: pipeline_def process_def load_example_case_days generate_example_case_days
      run_example_case_days example_case_days_sheets_def)
     (simp add: example_case_days_def)

text \<open>
  Claim C10, as amended. A day label is compared by exact equality of the text. Two labels
  of one weekday that differ in case or in surrounding blanks (Mon and MON) are distinct
  values of the grouping key and distinct days, so rows that carry them never fall into
  one occupancy entry, and the day matrix built for a label holds the entries whose day
  is exactly this label. Both labels have the same rank. In a run that returns, the day
  matrices are those handed to the sheet writer, in their order: no label has two of
  them, no label of another rank comes between two labels of one rank, and labels of one
  rank come in ascending code-point order (MON before Mon), whatever the order of the
  input. Nothing is said here about the sheets the two matrices end in.
\<close>

theorem C10_day_identity:
  assumes run: "generate_schedule_excel df v = Inr wb"
  shows "(\<forall>a b. upper (strip a) = upper (strip b) \<longrightarrow> rank_of a = rank_of b)
       \<and> rank_of ''Mon'' = rank_of ''MON''
       \<and> (\<forall>r1 r2 k1 k2. key_of r1 = Some k1 \<and> key_of r2 = Some k2 \<and> day r1 \<noteq> day r2 \<longrightarrow> k1 \<noteq> k2)
       \<and> (\<exists>out. final_dfs df v = Inr out \<and> write_sheets [] out = Inr wb
            \<and> distinct (map fst out)
            \<and> (\<forall>d m. (d, m) \<in> set out \<longrightarrow>
                 (\<exists>grouped. df_grouped (records df) = Inr grouped
                    \<and> build_day v grouped d = [(d, m)]
                    \<and> dm_rows m =
                        map (\<lambda>r. map (\<lambda>c. foldl (fill_row v (unique_primary v (filter (\<lambda>e. e_day e = d) grouped))
                                                       (primary_col v # generate_time_slots))
                                               (init_matrix v) (filter (\<lambda>e. e_day e = d) grouped) (r, c))
                                     (primary_col v # generate_time_slots))
                            (unique_primary v (filter (\<lambda>e. e_day e = d) grouped))))
            \<and> sorted (map rank_of (map fst out))
            \<and> sorted_wrt (\<lambda>a b. rank_of a < rank_of b \<or> (rank_of a = rank_of b \<and> a < b)) (map fst out))
       \<and> emitted_days (pipeline coerce example_case_days Room) = Inr [''MON'', ''Mon'']"
proof -
  from run_writes_final_dfs[OF run] obtain out where gen: "final_dfs df v = Inr out"
    and w: "write_sheets [] out = Inr wb" by blast
  have own: "\<forall>d m. (d, m) \<in> set out \<longrightarrow>
                 (\<exists>grouped. df_grouped (records df) = Inr grouped
                    \<and> build_day v grouped d = [(d, m)]
                    \<and> dm_rows m =
                        map (\<lambda>r. map (\<lambda>c. foldl (fill_row v (unique_primary v (filter (\<lambda>e. e_day e = d) grouped))
                                                       (primary_col v # generate_time_slots))
                                               (init_matrix v) (filter (\<lambda>e. e_day e = d) grouped) (r, c))
                                     (primary_col v # generate_time_slots))
                            (unique_primary v (filter (\<lambda>e. e_day e = d) grouped)))"
    using sheet_of_own_entries[OF gen] by blast
  have ord: "sorted_wrt (\<lambda>a b. rank_of a < rank_of b \<or> (rank_of a = rank_of b \<and> a < b)) (map fst out)"
    using emitted_days_ordered[OF gen] by (simp add: day_before_def[abs_def])
  have seq: "\<exists>out. final_dfs df v = Inr out \<and> write_sheets [] out = Inr wb
            \<and> distinct (map fst out)
            \<and> (\<forall>d m. (d, m) \<in> set out \<longrightarrow>
                 (\<exists>grouped. df_grouped (records df) = Inr grouped
                    \<and> build_day v grouped d = [(d, m)]
                    \<and> dm_rows m =
                        map (\<lambda>r. map (\<lambda>c. foldl (fill_row v (unique_primary v (filter (\<lambda>e. e_day e = d) grouped))
                                                       (primary_col v # generate_time_slots))
                                               (init_matrix v) (filter (\<lambda>e. e_day e = d) grouped) (r, c))
                                     (primary_col v # generate_time_slots))
                            (unique_primary v (filter (\<lambda>e. e_day e = d) grouped))))
            \<and> sorted (map rank_of (map fst out))
            \<and> sorted_wrt (\<lambda>a b. rank_of a < rank_of b \<or> (rank_of a = rank_of b \<and> a < b)) (map fst out)"
    using gen w emitted_days_distinct[OF gen] own emitted_ranks_sorted[OF gen] ord
    by (intro exI[of _ out] conjI)
  have cong: "\<forall>a b. upper (strip a) = upper (strip b) \<longrightarrow> rank_of a = rank_of b"
    using rank_of_cong by blast
  have mon: "rank_of ''Mon'' = rank_of ''MON''" by (rule rank_of_cong) (simp add: text_defs)
  have keys: "\<forall>r1 r2 k1 k2. key_of r1 = Some k1 \<and> key_of r2 = Some k2 \<and> day r1 \<noteq> day r2 \<longrightarrow> k1 \<noteq> k2"
    using keys_of_different_days by blast
  from cong mon keys seq days_example_case_days[of coerce] show ?thesis by (intro conjI)
qed

theorem C10_day_identity_witness:
  "generate_schedule_excel example_case_days_clean Room = Inr [(''MON'', example_sheet_R1)]
   \<and> final_dfs example_case_days_clean Room = Inr example_case_days_sheets
   \<and> map fst example_case_days_sheets = [''MON'', ''Mon'']
   \<and> write_sheets [] example_case_days_sheets = Inr [(''MON'', example_sheet_R1)]
   \<and> distinct (map fst example_case_days_sheets)
   \<and> sorted (map rank_of (map fst example_case_days_sheets))"
proof -
  have h: "generate_schedule_excel example_case_days_clean Room = Inr [(''MON'', example_sheet_R1)]"
    by (rule run_example_case_days)
  have g: "final_dfs example_case_days_clean Room = Inr example_case_days_sheets"
    by (rule generate_example_case_days)
  from C10_day_identity[OF h] g
  have "write_sheets [] example_case_days_sheets = Inr [(''MON'', example_sheet_R1)]
      \<and> distinct (map fst example_case_days_sheets)
      \<and> sorted (map rank_of (map fst example_case_days_sheets))" by auto
  with h g show ?thesis by (simp add: example_case_days_sheets_def)
qed

section \<open>The workbook of a run\<close>

lemmas run_defs = generate_schedule_excel_def to_excel_def sheet_name_clean_def invalid_title_def
  overlay_def overlay_row_def

text \<open>The workbook of the end-to-end example: one sheet, named MON.\<close>

lemma process_example_two_groups:
  "process coerce example_two_groups Room =
     Inr [(''MON'',
           \<lparr>dm_columns = ''ROOM'' # generate_time_slots,
            dm_rows =
              [[Some ''101'',
                Some (''A'' @ [CHR 0x0A] @ ''Math'' @ [CHR 0x0A] @ ''JAN G1'' @ [CHR 0x0A] @ ''JAN G2''),
                Some (''A'' @ [CHR 0x0A] @ ''Math'' @ [CHR 0x0A] @ ''JAN G1'' @ [CHR 0x0A] @ ''JAN G2''),
                None, None, None, None, None, None, None, None, None,
                None, None, None, None, None, None, None, None, None]]\<rparr>)]"
  by (simp add: process_def load_example_two_groups run_defs gen_defs time_slots_eq)

text \<open>A day label that starts with a blank has the empty sheet name: the write raises,
  and the day after it is never written.\<close>

lemma load_example_blank_label:
  "load_and_clean_data coerce example_blank_label =
     Inr \<lparr>day_columns = 1,
          records =
            [\<lparr>idx = 0, day = Str '' Mon'', start_time = ''08:05:00'', subject = Str [],
              teacher = Str [], room = Str ''R1'', group_col = Str [],
              intake = Str [], intake_group = Str '' ''\<rparr>,
             \<lparr>idx = 1, day = Str ''Mon'', start_time = ''08:05:00'', subject = Str [],
              teacher = Str [], room = Str ''R2'', group_col = Str [],
              intake = Str [], intake_group = Str '' ''\<rparr>]\<rparr>"
  by (simp add: example_blank_label_def load_defs upt_2)

lemma process_example_blank_label:
  "emitted_days (pipeline coerce example_blank_label Room) = Inr ['' Mon'', ''Mon'']"
  "process coerce example_blank_label Room = Inl SheetTitleError"
  by (simp_all add: emitted_days_def pipeline_def process_def load_example_blank_label run_defs
      gen_defs time_slots_eq)

text \<open>A run in which no day has a valid primary value writes no sheet, and closing the
  writer raises.\<close>

lemma load_example_no_room:
  "load_and_clean_data coerce example_no_room =
     Inr \<lparr>day_columns = 1,
          records =
            [\<lparr>idx = 0, day = Str ''Mon'', start_time = ''08:05:00'', subject = Str [],
              teacher = Str [], room = Str ''nan'', group_col = Str [],
              intake = Str [], intake_group = Str '' ''\<rparr>]\<rparr>"
  by (simp add: example_no_room_def load_defs)

lemma process_example_no_room:
  "pipeline coerce example_no_room Room = Inr []"
  "process coerce example_no_room Room = Inl IndexError"
  by (simp_all add: pipeline_def process_def load_example_no_room run_defs gen_defs)

end
